theory Spec2Isabelle
  imports Main "HOL-Library.Word"
begin

section \<open>Package models\<close>

text \<open>
  A \<open>uuid.UUID\<close> is sixteen bytes; \<open>uuid.Nil\<close> is the all-zero value. A \<open>time.Time\<close> is
  an instant, counted here in nanoseconds from Go's zero time (January 1, year 1, UTC), so
  that \<open>IsZero\<close> is equality with 0. A \<open>time.Duration\<close> is a signed 64-bit count of
  nanoseconds. A Go \<open>error\<close> is represented by its message.
\<close>

type_synonym uuid = "128 word"
type_synonym time = int
type_synonym Duration = int
type_synonym error = string

definition uuid_Nil :: uuid where
  "uuid_Nil = 0"

definition IsZero :: "time \<Rightarrow> bool" where
  "IsZero t = (t = 0)"

definition Second :: Duration where
  "Second = 1000000000"

definition Minute :: Duration where
  "Minute = 60 * Second"

definition Day :: Duration where
  "Day = 24 * (60 * Minute)"

text \<open>\<open>type LogLevel string\<close>: any string can stand where a level is expected.\<close>

type_synonym LogLevel = string

definition LogLevelDebug :: LogLevel where "LogLevelDebug = ''DEBUG''"
definition LogLevelInfo :: LogLevel where "LogLevelInfo = ''INFO''"
definition LogLevelWarn :: LogLevel where "LogLevelWarn = ''WARN''"
definition LogLevelError :: LogLevel where "LogLevelError = ''ERROR''"
definition LogLevelFatal :: LogLevel where "LogLevelFatal = ''FATAL''"

text \<open>
  The structs of the package. The columns that GORM maintains by itself (\<open>CreatedAt\<close>,
  \<open>UpdatedAt\<close>) are left out: no function of the service reads or writes them.
\<close>

record LogEntry =
  ID :: uuid
  TenantID :: uuid
  ServiceName :: string
  Level :: LogLevel
  Message :: string
  Timestamp :: time
  TraceID :: string
  SpanID :: string
  UserID :: "uuid option"
  RequestID :: string
  Metadata :: string
  Source :: string
  Host :: string
  Environment :: string

record LogFilter =
  TenantID :: "uuid option"
  ServiceName :: string
  Level :: LogLevel
  MinLevel :: LogLevel
  StartTime :: "time option"
  EndTime :: "time option"
  TraceID :: string
  UserID :: "uuid option"
  RequestID :: string
  Search :: string
  Environment :: string
  Page :: "64 word"
  PageSize :: "64 word"

record LogRetention =
  ID :: uuid
  TenantID :: uuid
  RetentionDays :: int
  MaxSizeGB :: int
  ArchiveEnabled :: bool
  ArchivePath :: string

record LogAlert =
  ID :: uuid
  TenantID :: uuid
  Name :: string
  Description :: string
  Enabled :: bool
  Filter :: string
  Threshold :: int
  WindowMins :: int
  Severity :: string
  Channels :: string
  LastTriggered :: "time option"

record LogQueryResult =
  Entries :: "LogEntry list"
  TotalCount :: int
  Page :: "64 word"
  PageSize :: "64 word"
  HasMore :: bool

section \<open>Package repository: the log entry store\<close>

text \<open>
  A GORM query is a chain of \<open>Where\<close> clauses; \<open>cond\<close> lists the clauses the repository
  writes, in the order of the source, and \<open>holds\<close> is what each clause selects.
  PostgreSQL's \<open>LOWER(message) LIKE pattern\<close> is a parameter (\<open>like\<close>), as is Go's
  \<open>strings.ToLower\<close> (\<open>lower\<close>).
\<close>

datatype cond =
    TenantIdEq uuid
  | ServiceNameEq string
  | LevelEq LogLevel
  | LevelIn "LogLevel list"
  | TimestampGe time
  | TimestampLe time
  | TimestampLt time
  | TraceIdEq string
  | UserIdEq uuid
  | RequestIdEq string
  | EnvironmentEq string
  | LowerMessageLike string

fun holds :: "(string \<Rightarrow> string \<Rightarrow> bool) \<Rightarrow> cond \<Rightarrow> LogEntry \<Rightarrow> bool" where
  "holds like (TenantIdEq t) e = (LogEntry.TenantID e = t)"
| "holds like (ServiceNameEq n) e = (LogEntry.ServiceName e = n)"
| "holds like (LevelEq l) e = (LogEntry.Level e = l)"
| "holds like (LevelIn ls) e = (LogEntry.Level e \<in> set ls)"
| "holds like (TimestampGe t) e = (t \<le> Timestamp e)"
| "holds like (TimestampLe t) e = (Timestamp e \<le> t)"
| "holds like (TimestampLt t) e = (Timestamp e < t)"
| "holds like (TraceIdEq t) e = (LogEntry.TraceID e = t)"
| "holds like (UserIdEq u) e = (LogEntry.UserID e = Some u)"
| "holds like (RequestIdEq r) e = (LogEntry.RequestID e = r)"
| "holds like (EnvironmentEq v) e = (LogEntry.Environment e = v)"
| "holds like (LowerMessageLike p) e = like (Message e) p"

definition selects :: "(string \<Rightarrow> string \<Rightarrow> bool) \<Rightarrow> cond list \<Rightarrow> LogEntry \<Rightarrow> bool" where
  "selects like cs e = list_all (\<lambda>c. holds like c e) cs"

text \<open>
  \<open>getLevelsAtOrAbove\<close>: the loop over the five levels, with its \<open>found\<close> flag and its
  \<open>result\<close> slice.
\<close>

definition levels :: "LogLevel list" where
  "levels = [LogLevelDebug, LogLevelInfo, LogLevelWarn, LogLevelError, LogLevelFatal]"

fun levels_loop :: "LogLevel \<Rightarrow> LogLevel list \<Rightarrow> bool \<Rightarrow> LogLevel list \<Rightarrow> LogLevel list" where
  "levels_loop level [] found result = result"
| "levels_loop level (l # ls) found result =
     (let found' = (if l = level then True else found);
          result' = (if found' then result @ [l] else result)
      in levels_loop level ls found' result')"

definition getLevelsAtOrAbove :: "LogLevel \<Rightarrow> LogLevel list" where
  "getLevelsAtOrAbove level = levels_loop level levels False []"

text \<open>\<open>buildQuery\<close>: one clause for each field of the filter that is set.\<close>

definition buildQuery :: "(string \<Rightarrow> string) \<Rightarrow> LogFilter \<Rightarrow> cond list" where
  "buildQuery lower flt =
     (case LogFilter.TenantID flt of None \<Rightarrow> [] | Some t \<Rightarrow> [TenantIdEq t])
   @ (if LogFilter.ServiceName flt \<noteq> '''' then [ServiceNameEq (LogFilter.ServiceName flt)] else [])
   @ (if LogFilter.Level flt \<noteq> '''' then [LevelEq (LogFilter.Level flt)] else [])
   @ (if MinLevel flt \<noteq> '''' then [LevelIn (getLevelsAtOrAbove (MinLevel flt))] else [])
   @ (case StartTime flt of None \<Rightarrow> [] | Some t \<Rightarrow> [TimestampGe t])
   @ (case EndTime flt of None \<Rightarrow> [] | Some t \<Rightarrow> [TimestampLe t])
   @ (if LogFilter.TraceID flt \<noteq> '''' then [TraceIdEq (LogFilter.TraceID flt)] else [])
   @ (case LogFilter.UserID flt of None \<Rightarrow> [] | Some u \<Rightarrow> [UserIdEq u])
   @ (if LogFilter.RequestID flt \<noteq> '''' then [RequestIdEq (LogFilter.RequestID flt)] else [])
   @ (if LogFilter.Environment flt \<noteq> '''' then [EnvironmentEq (LogFilter.Environment flt)] else [])
   @ (if Search flt \<noteq> '''' then [LowerMessageLike (''%'' @ lower (Search flt) @ ''%'')] else [])"

text \<open>
  The table behind the repository. Every statement sent to the database can fail; \<open>script\<close>
  holds the outcome of the statements to come (\<open>None\<close>: the statement succeeds; an exhausted
  script: every later statement succeeds), and \<open>journal\<close> records the statements sent.
  GORM runs a write in a transaction, so a failed statement leaves the table as it was.
\<close>

datatype db_call =
    CallCreate LogEntry
  | CallCreateInBatches "LogEntry list" nat
  | CallCount "cond list"
  | CallFind "cond list" "64 word" "64 word"
  | CallDelete "cond list"

record LogRepository =
  table :: "LogEntry list"
  script :: "error option list"
  journal :: "db_call list"

definition next_outcome :: "error option list \<Rightarrow> error option \<times> error option list" where
  "next_outcome sc = (case sc of [] \<Rightarrow> (None, []) | f # fs \<Rightarrow> (f, fs))"

definition send :: "db_call \<Rightarrow> LogRepository \<Rightarrow> error option \<times> LogRepository" where
  "send c r =
     (case next_outcome (script r) of
        (f, fs) \<Rightarrow> (f, r\<lparr>script := fs, journal := journal r @ [c]\<rparr>))"

definition Create :: "LogRepository \<Rightarrow> LogEntry \<Rightarrow> error option \<times> LogRepository" where
  "Create r entry =
     (case send (CallCreate entry) r of
        (Some err, r') \<Rightarrow> (Some err, r')
      | (None, r') \<Rightarrow> (None, r'\<lparr>table := table r' @ [entry]\<rparr>))"

definition CreateBatch :: "LogRepository \<Rightarrow> LogEntry list \<Rightarrow> error option \<times> LogRepository" where
  "CreateBatch r entries =
     (if length entries = 0 then (None, r)
      else case send (CallCreateInBatches entries 1000) r of
             (Some err, r') \<Rightarrow> (Some err, r')
           | (None, r') \<Rightarrow> (None, r'\<lparr>table := table r' @ entries\<rparr>))"

text \<open>
  \<open>Query\<close>: count, then the page. \<open>page\<close> and \<open>pageSize\<close> are Go \<open>int\<close>s (64 bits,
  compared as signed values; the product wraps). GORM writes no OFFSET clause for an
  offset that is not positive. Rows with equal timestamps come in the order the database
  chooses; the model takes the reverse of the stable ascending sort.
\<close>

definition LogRepository_Query ::
  "(string \<Rightarrow> string) \<Rightarrow> (string \<Rightarrow> string \<Rightarrow> bool) \<Rightarrow> LogRepository \<Rightarrow> LogFilter
     \<Rightarrow> (error + LogEntry list \<times> int) \<times> LogRepository" where
  "LogRepository_Query lower like r flt =
     (let query = buildQuery lower flt in
      case send (CallCount query) r of
        (Some err, r1) \<Rightarrow> (Inl err, r1)
      | (None, r1) \<Rightarrow>
          (let total = int (length (filter (selects like query) (table r1)));
               page = (if LogFilter.Page flt <s 1 then 1 else LogFilter.Page flt);
               pageSize = (if LogFilter.PageSize flt <s 1 \<or> 1000 <s LogFilter.PageSize flt
                           then 100 else LogFilter.PageSize flt);
               offset = (page - 1) * pageSize
           in case send (CallFind query offset pageSize) r1 of
                (Some err, r2) \<Rightarrow> (Inl err, r2)
              | (None, r2) \<Rightarrow>
                  (Inr (take (nat (sint pageSize))
                         (drop (nat (sint offset))
                           (rev (sort_key Timestamp (filter (selects like query) (table r2))))),
                        total), r2)))"

text \<open>
  \<open>DeleteOlderThan\<close>: without a tenant the only clause is the one on the timestamp. The
  query has no LIKE clause, so the pattern matcher given to \<open>selects\<close> is never asked.
\<close>

definition DeleteOlderThan ::
  "LogRepository \<Rightarrow> uuid option \<Rightarrow> time \<Rightarrow> (int \<times> error option) \<times> LogRepository" where
  "DeleteOlderThan r tenantID before =
     (let query = [TimestampLt before]
                  @ (case tenantID of None \<Rightarrow> [] | Some t \<Rightarrow> [TenantIdEq t]) in
      case send (CallDelete query) r of
        (Some err, r') \<Rightarrow> ((0, Some err), r')
      | (None, r') \<Rightarrow>
          ((int (length (filter (selects (\<lambda>m p. False) query) (table r'))), None),
           r'\<lparr>table := filter (\<lambda>e. \<not> selects (\<lambda>m p. False) query e) (table r')\<rparr>))"

section \<open>Package repository: the alert and retention stores\<close>

text \<open>\<open>NOW\<close> is the clock of the database server, which \<open>UpdateLastTriggered\<close> reads.\<close>

record AlertRepository =
  alerts :: "LogAlert list"
  NOW :: time
  alert_script :: "error option list"

definition FindEnabled :: "AlertRepository \<Rightarrow> (LogAlert list \<times> error option) \<times> AlertRepository" where
  "FindEnabled r =
     (case next_outcome (alert_script r) of
        (Some err, fs) \<Rightarrow> (([], Some err), r\<lparr>alert_script := fs\<rparr>)
      | (None, fs) \<Rightarrow> ((filter Enabled (alerts r), None), r\<lparr>alert_script := fs\<rparr>))"

definition UpdateLastTriggered :: "AlertRepository \<Rightarrow> uuid \<Rightarrow> error option \<times> AlertRepository" where
  "UpdateLastTriggered r aid =
     (case next_outcome (alert_script r) of
        (Some err, fs) \<Rightarrow> (Some err, r\<lparr>alert_script := fs\<rparr>)
      | (None, fs) \<Rightarrow>
          (None, r\<lparr>alert_script := fs,
                    alerts := map (\<lambda>a. if LogAlert.ID a = aid then a\<lparr>LastTriggered := Some (NOW r)\<rparr> else a)
                                  (alerts r)\<rparr>))"

record RetentionRepository =
  policies :: "LogRetention list"
  retention_script :: "error option list"

definition FindAll :: "RetentionRepository \<Rightarrow> (LogRetention list \<times> error option) \<times> RetentionRepository" where
  "FindAll r =
     (case next_outcome (retention_script r) of
        (Some err, fs) \<Rightarrow> (([], Some err), r\<lparr>retention_script := fs\<rparr>)
      | (None, fs) \<Rightarrow> ((policies r, None), r\<lparr>retention_script := fs\<rparr>))"

section \<open>The result cache\<close>

text \<open>
  The Redis client, as far as the service uses it: \<open>Get\<close> and \<open>Set\<close> with an expiry.
  A key holds its value and the instant it expires (none for a zero expiry); \<open>redis_clock\<close>
  is the clock of the Redis server. A missing or expired key is the error \<open>redis.Nil\<close>.
\<close>

definition redis_Nil :: error where
  "redis_Nil = ''redis: nil''"

record Redis =
  kv :: "string \<rightharpoonup> string \<times> time option"
  redis_clock :: time
  redis_script :: "error option list"

definition Get :: "Redis \<Rightarrow> string \<Rightarrow> (error + string) \<times> Redis" where
  "Get c key =
     (case next_outcome (redis_script c) of
        (Some err, fs) \<Rightarrow> (Inl err, c\<lparr>redis_script := fs\<rparr>)
      | (None, fs) \<Rightarrow>
          (case kv c key of
             None \<Rightarrow> (Inl redis_Nil, c\<lparr>redis_script := fs\<rparr>)
           | Some (data, None) \<Rightarrow> (Inr data, c\<lparr>redis_script := fs\<rparr>)
           | Some (data, Some expiry) \<Rightarrow>
               (if redis_clock c < expiry then (Inr data, c\<lparr>redis_script := fs\<rparr>)
                else (Inl redis_Nil, c\<lparr>redis_script := fs\<rparr>))))"

definition Set :: "Redis \<Rightarrow> string \<Rightarrow> string \<Rightarrow> Duration \<Rightarrow> error option \<times> Redis" where
  "Set c key data ttl =
     (case next_outcome (redis_script c) of
        (Some err, fs) \<Rightarrow> (Some err, c\<lparr>redis_script := fs\<rparr>)
      | (None, fs) \<Rightarrow>
          (None, c\<lparr>redis_script := fs,
                    kv := (kv c)(key \<mapsto> (data, if 0 < ttl then Some (redis_clock c + ttl) else None))\<rparr>))"

section \<open>Package service: the log service\<close>

text \<open>
  The state of a \<open>LogService\<close>: its fields, and what the service reaches from the outside.
  \<open>stdout\<close> holds the \<open>fmt.Printf\<close> calls made (the format chosen, with its arguments),
  \<open>spawned\<close> the goroutines started with \<open>go\<close>, in order; a goroutine runs apart from
  its caller, so the model records the start and gives the body as a function of its own.
  \<open>ticks\<close> and \<open>drawn\<close> count the readings of \<open>time.Now()\<close> and the calls of
  \<open>uuid.New()\<close>: the \<open>k\<close>-th reading is \<open>clock k\<close>, the \<open>k\<close>-th identifier \<open>gen k\<close>,
  for a clock and a generator that the functions take as parameters.
\<close>

datatype printed =
    FlushFailed error
  | CleanupFailed uuid error
  | AlertTriggered string string

datatype task =
    GoCheckAlerts LogEntry
  | GoCheckAlertsBatch "LogEntry list"
  | GoFlushBuffer

record RetentionConfig =
  Days :: int
  RetentionDays :: int
  MaxSizeGB :: int
  CleanupEnabled :: bool
  CleanupCron :: string

record Config =
  Retention :: RetentionConfig

record LogBatch =
  Entries :: "LogEntry list"

record LogService =
  logRepo :: LogRepository
  retentionRepo :: RetentionRepository
  alertRepo :: AlertRepository
  redis :: "Redis option"
  config :: Config
  buffer :: "LogEntry list"
  stdout :: "printed list"
  spawned :: "task list"
  ticks :: nat
  drawn :: nat

definition time_Now :: "(nat \<Rightarrow> time) \<Rightarrow> LogService \<Rightarrow> time \<times> LogService" where
  "time_Now clock s = (clock (ticks s), s\<lparr>ticks := Suc (ticks s)\<rparr>)"

definition uuid_New :: "(nat \<Rightarrow> uuid) \<Rightarrow> LogService \<Rightarrow> uuid \<times> LogService" where
  "uuid_New gen s = (gen (drawn s), s\<lparr>drawn := Suc (drawn s)\<rparr>)"

text \<open>\<open>Time.Sub\<close> saturates at the bounds of a \<open>Duration\<close>; \<open>time.Since(t)\<close> is \<open>time.Now().Sub(t)\<close>.\<close>

definition maxDuration :: Duration where
  "maxDuration = 2 ^ 63 - 1"

definition minDuration :: Duration where
  "minDuration = - (2 ^ 63)"

definition Sub :: "time \<Rightarrow> time \<Rightarrow> Duration" where
  "Sub t u = (let d = t - u in
              if maxDuration < d then maxDuration
              else if d < minDuration then minDuration
              else d)"

definition time_Since :: "(nat \<Rightarrow> time) \<Rightarrow> LogService \<Rightarrow> time \<Rightarrow> Duration \<times> LogService" where
  "time_Since clock s t = (case time_Now clock s of (now, s') \<Rightarrow> (Sub now t, s'))"

text \<open>
  \<open>t.AddDate(0, 0, days)\<close>, for a time whose location has no change of offset (UTC, the
  zone of the service's container): a calendar day is then 24 hours.
\<close>

definition AddDate_days :: "time \<Rightarrow> int \<Rightarrow> time" where
  "AddDate_days t days = t + days * Day"

subsection \<open>Ingestion\<close>

definition set_defaults :: "(nat \<Rightarrow> uuid) \<Rightarrow> time \<Rightarrow> LogService \<Rightarrow> LogEntry \<Rightarrow> LogEntry \<times> LogService" where
  "set_defaults gen now s entry =
     (case (if LogEntry.ID entry = uuid_Nil
            then (case uuid_New gen s of (u, s') \<Rightarrow> (entry\<lparr>LogEntry.ID := u\<rparr>, s'))
            else (entry, s)) of
        (entry1, s1) \<Rightarrow>
          (if IsZero (Timestamp entry1) then (entry1\<lparr>Timestamp := now\<rparr>, s1) else (entry1, s1)))"

text \<open>
  \<open>IngestSingle\<close> reads the clock only when the timestamp is absent. The entry is passed by
  pointer: the updated entry is returned next to the error.
\<close>

definition IngestSingle ::
  "(nat \<Rightarrow> uuid) \<Rightarrow> (nat \<Rightarrow> time) \<Rightarrow> LogService \<Rightarrow> LogEntry \<Rightarrow> (error option \<times> LogEntry) \<times> LogService" where
  "IngestSingle gen clock s entry =
     (case (if LogEntry.ID entry = uuid_Nil
            then (case uuid_New gen s of (u, s') \<Rightarrow> (entry\<lparr>LogEntry.ID := u\<rparr>, s'))
            else (entry, s)) of
        (entry1, s1) \<Rightarrow>
     (case (if IsZero (Timestamp entry1)
            then (case time_Now clock s1 of (now, s') \<Rightarrow> (entry1\<lparr>Timestamp := now\<rparr>, s'))
            else (entry1, s1)) of
        (entry2, s2) \<Rightarrow>
     (let s3 = s2\<lparr>spawned := spawned s2 @ [GoCheckAlerts entry2]\<rparr> in
      case Create (logRepo s3) entry2 of
        (err, r') \<Rightarrow> ((err, entry2), s3\<lparr>logRepo := r'\<rparr>))))"

fun batch_defaults :: "(nat \<Rightarrow> uuid) \<Rightarrow> time \<Rightarrow> LogService \<Rightarrow> LogEntry list \<Rightarrow> LogEntry list \<times> LogService" where
  "batch_defaults gen now s [] = ([], s)"
| "batch_defaults gen now s (e # es) =
     (case set_defaults gen now s e of
        (e', s1) \<Rightarrow> (case batch_defaults gen now s1 es of (es', s2) \<Rightarrow> (e' # es', s2)))"

definition IngestBatch ::
  "(nat \<Rightarrow> uuid) \<Rightarrow> (nat \<Rightarrow> time) \<Rightarrow> LogService \<Rightarrow> LogBatch \<Rightarrow> (error option \<times> LogBatch) \<times> LogService" where
  "IngestBatch gen clock s batch =
     (case time_Now clock s of
        (now, s0) \<Rightarrow>
     (case batch_defaults gen now s0 (LogBatch.Entries batch) of
        (entries, s1) \<Rightarrow>
     (let s2 = s1\<lparr>spawned := spawned s1 @ [GoCheckAlertsBatch entries]\<rparr> in
      case CreateBatch (logRepo s2) entries of
        (err, r') \<Rightarrow> ((err, batch\<lparr>LogBatch.Entries := entries\<rparr>), s2\<lparr>logRepo := r'\<rparr>))))"

subsection \<open>The buffer\<close>

definition BufferLog :: "(nat \<Rightarrow> uuid) \<Rightarrow> (nat \<Rightarrow> time) \<Rightarrow> LogService \<Rightarrow> LogEntry \<Rightarrow> LogService" where
  "BufferLog gen clock s entry =
     (case (if LogEntry.ID entry = uuid_Nil
            then (case uuid_New gen s of (u, s') \<Rightarrow> (entry\<lparr>LogEntry.ID := u\<rparr>, s'))
            else (entry, s)) of
        (entry1, s1) \<Rightarrow>
     (case (if IsZero (Timestamp entry1)
            then (case time_Now clock s1 of (now, s') \<Rightarrow> (entry1\<lparr>Timestamp := now\<rparr>, s'))
            else (entry1, s1)) of
        (entry2, s2) \<Rightarrow>
     (let s3 = s2\<lparr>buffer := buffer s2 @ [entry2]\<rparr>;
          shouldFlush = (1000 \<le> length (buffer s3))
      in if shouldFlush then s3\<lparr>spawned := spawned s3 @ [GoFlushBuffer]\<rparr> else s3)))"

definition flushBuffer :: "LogService \<Rightarrow> LogService" where
  "flushBuffer s =
     (if length (buffer s) = 0 then s
      else (let entries = buffer s;
                s1 = s\<lparr>buffer := []\<rparr>
            in case CreateBatch (logRepo s1) entries of
                 (Some err, r') \<Rightarrow> s1\<lparr>logRepo := r', stdout := stdout s1 @ [FlushFailed err]\<rparr>
               | (None, r') \<Rightarrow> s1\<lparr>logRepo := r'\<rparr>))"

subsection \<open>Queries through the cache\<close>

text \<open>
  \<open>encoding/json\<close> is outside the repository: the four uses the service makes of it are
  parameters (\<open>marshal_filter\<close>, \<open>marshal_result\<close>, \<open>unmarshal_result\<close>, and
  \<open>unmarshal_filter\<close> in the alert evaluator). \<open>hex\<close> is what the verb \<open>%x\<close> prints for
  a byte slice: two lower-case digits for each byte.
\<close>

definition hex_digit :: "nat \<Rightarrow> char" where
  "hex_digit n = ''0123456789abcdef'' ! n"

definition hex :: "string \<Rightarrow> string" where
  "hex data = concat (map (\<lambda>c. [hex_digit (of_char c div 16), hex_digit (of_char c mod 16)]) data)"

definition buildCacheKey :: "(LogFilter \<Rightarrow> error + string) \<Rightarrow> LogFilter \<Rightarrow> string" where
  "buildCacheKey marshal_filter flt =
     (let data = (case marshal_filter flt of Inl err \<Rightarrow> [] | Inr d \<Rightarrow> d)
      in ''log_query:'' @ hex data)"

definition getCachedResult ::
  "(string \<Rightarrow> error + LogQueryResult) \<Rightarrow> LogService \<Rightarrow> string
     \<Rightarrow> (LogQueryResult option \<times> error option) \<times> LogService" where
  "getCachedResult unmarshal_result s key =
     (case redis s of
        None \<Rightarrow> ((None, None), s)
      | Some c \<Rightarrow>
          (case Get c key of
             (Inl err, c') \<Rightarrow> ((None, Some err), s\<lparr>redis := Some c'\<rparr>)
           | (Inr data, c') \<Rightarrow>
               (case unmarshal_result data of
                  Inl err \<Rightarrow> ((None, Some err), s\<lparr>redis := Some c'\<rparr>)
                | Inr result \<Rightarrow> ((Some result, None), s\<lparr>redis := Some c'\<rparr>))))"

definition cacheResult ::
  "(LogQueryResult \<Rightarrow> error + string) \<Rightarrow> LogService \<Rightarrow> string \<Rightarrow> LogQueryResult \<Rightarrow> Duration
     \<Rightarrow> LogService" where
  "cacheResult marshal_result s key result ttl =
     (case redis s of
        None \<Rightarrow> s
      | Some c \<Rightarrow>
          (case marshal_result result of
             Inl err \<Rightarrow> s
           | Inr data \<Rightarrow> (case Set c key data ttl of (err, c') \<Rightarrow> s\<lparr>redis := Some c'\<rparr>)))"

definition LogService_Query ::
  "(LogFilter \<Rightarrow> error + string) \<Rightarrow> (string \<Rightarrow> error + LogQueryResult)
     \<Rightarrow> (LogQueryResult \<Rightarrow> error + string) \<Rightarrow> (string \<Rightarrow> string) \<Rightarrow> (string \<Rightarrow> string \<Rightarrow> bool)
     \<Rightarrow> LogService \<Rightarrow> LogFilter \<Rightarrow> (error + LogQueryResult) \<times> LogService" where
  "LogService_Query marshal_filter unmarshal_result marshal_result lower like s flt =
     (let cacheKey = buildCacheKey marshal_filter flt in
      case getCachedResult unmarshal_result s cacheKey of
        ((Some cached, None), s1) \<Rightarrow> (Inr cached, s1)
      | (_, s1) \<Rightarrow>
          (case LogRepository_Query lower like (logRepo s1) flt of
             (Inl err, r') \<Rightarrow> (Inl err, s1\<lparr>logRepo := r'\<rparr>)
           | (Inr (entries, count), r') \<Rightarrow>
               (let result = \<lparr>LogQueryResult.Entries = entries, TotalCount = count,
                              LogQueryResult.Page = LogFilter.Page flt,
                              LogQueryResult.PageSize = LogFilter.PageSize flt,
                              HasMore = False\<rparr>
                in (Inr result,
                    cacheResult marshal_result (s1\<lparr>logRepo := r'\<rparr>) cacheKey result (30 * Second)))))"

subsection \<open>Retention cleanup\<close>

fun Cleanup_policies :: "(nat \<Rightarrow> time) \<Rightarrow> LogService \<Rightarrow> LogRetention list \<Rightarrow> LogService" where
  "Cleanup_policies clock s [] = s"
| "Cleanup_policies clock s (policy # rest) =
     (case time_Now clock s of
        (now, s1) \<Rightarrow>
     (let cutoff = AddDate_days now (- LogRetention.RetentionDays policy) in
      case DeleteOlderThan (logRepo s1) (Some (LogRetention.TenantID policy)) cutoff of
        ((n, Some err), r') \<Rightarrow>
          Cleanup_policies clock
            (s1\<lparr>logRepo := r',
                stdout := stdout s1 @ [CleanupFailed (LogRetention.TenantID policy) err]\<rparr>) rest
      | ((n, None), r') \<Rightarrow> Cleanup_policies clock (s1\<lparr>logRepo := r'\<rparr>) rest))"

definition Cleanup :: "(nat \<Rightarrow> time) \<Rightarrow> LogService \<Rightarrow> error option \<times> LogService" where
  "Cleanup clock s =
     (case FindAll (retentionRepo s) of
        ((ps, Some err), rr) \<Rightarrow> (Some err, s\<lparr>retentionRepo := rr\<rparr>)
      | ((ps, None), rr) \<Rightarrow>
          (let s1 = Cleanup_policies clock (s\<lparr>retentionRepo := rr\<rparr>) ps in
           case time_Now clock s1 of
             (now, s2) \<Rightarrow>
          (let defaultCutoff =
                 AddDate_days now (- RetentionConfig.RetentionDays (Retention (config s2))) in
           case DeleteOlderThan (logRepo s2) None defaultCutoff of
             ((n, err), r') \<Rightarrow> (err, s2\<lparr>logRepo := r'\<rparr>))))"

subsection \<open>Alert evaluation\<close>

definition matchesAlert :: "(string \<Rightarrow> error + LogFilter) \<Rightarrow> LogEntry \<Rightarrow> LogAlert \<Rightarrow> bool" where
  "matchesAlert unmarshal_filter entry alert =
     (case unmarshal_filter (Filter alert) of
        Inl err \<Rightarrow> False
      | Inr flt \<Rightarrow>
          (if LogFilter.ServiceName flt \<noteq> '''' \<and> LogFilter.ServiceName flt \<noteq> LogEntry.ServiceName entry
           then False
           else if LogFilter.Level flt \<noteq> '''' \<and> LogFilter.Level flt \<noteq> LogEntry.Level entry
           then False
           else if (case LogFilter.TenantID flt of None \<Rightarrow> False | Some t \<Rightarrow> t \<noteq> LogEntry.TenantID entry)
           then False
           else True))"

definition triggerAlert :: "(nat \<Rightarrow> time) \<Rightarrow> LogService \<Rightarrow> LogAlert \<Rightarrow> LogEntry \<Rightarrow> LogService" where
  "triggerAlert clock s alert entry =
     (case (case LastTriggered alert of
              None \<Rightarrow> (False, s)
            | Some lt \<Rightarrow> (case time_Since clock s lt of (d, s') \<Rightarrow> (d < Minute, s'))) of
        (limited, s1) \<Rightarrow>
          (if limited then s1
           else (case UpdateLastTriggered (alertRepo s1) (LogAlert.ID alert) of
                   (err, r') \<Rightarrow>
                     s1\<lparr>alertRepo := r',
                        stdout := stdout s1 @ [AlertTriggered (Name alert) (Message entry)]\<rparr>)))"

fun checkAlerts_loop ::
  "(string \<Rightarrow> error + LogFilter) \<Rightarrow> (nat \<Rightarrow> time) \<Rightarrow> LogService \<Rightarrow> LogEntry \<Rightarrow> LogAlert list
     \<Rightarrow> LogService" where
  "checkAlerts_loop unmarshal_filter clock s entry [] = s"
| "checkAlerts_loop unmarshal_filter clock s entry (alert # rest) =
     checkAlerts_loop unmarshal_filter clock
       (if matchesAlert unmarshal_filter entry alert then triggerAlert clock s alert entry else s)
       entry rest"

definition checkAlerts ::
  "(string \<Rightarrow> error + LogFilter) \<Rightarrow> (nat \<Rightarrow> time) \<Rightarrow> LogService \<Rightarrow> LogEntry \<Rightarrow> LogService" where
  "checkAlerts unmarshal_filter clock s entry =
     (case FindEnabled (alertRepo s) of
        ((as, Some err), r') \<Rightarrow> s\<lparr>alertRepo := r'\<rparr>
      | ((as, None), r') \<Rightarrow> checkAlerts_loop unmarshal_filter clock (s\<lparr>alertRepo := r'\<rparr>) entry as)"

text \<open>The bodies of the goroutines that the ingestion paths and \<open>BufferLog\<close> start.\<close>

fun checkAlerts_batch ::
  "(string \<Rightarrow> error + LogFilter) \<Rightarrow> (nat \<Rightarrow> time) \<Rightarrow> LogService \<Rightarrow> LogEntry list \<Rightarrow> LogService" where
  "checkAlerts_batch unmarshal_filter clock s [] = s"
| "checkAlerts_batch unmarshal_filter clock s (entry # rest) =
     checkAlerts_batch unmarshal_filter clock
       (if LogEntry.Level entry = LogLevelError \<or> LogEntry.Level entry = LogLevelFatal
        then checkAlerts unmarshal_filter clock s entry else s)
       rest"

fun run_task :: "(string \<Rightarrow> error + LogFilter) \<Rightarrow> (nat \<Rightarrow> time) \<Rightarrow> LogService \<Rightarrow> task \<Rightarrow> LogService" where
  "run_task unmarshal_filter clock s (GoCheckAlerts entry) = checkAlerts unmarshal_filter clock s entry"
| "run_task unmarshal_filter clock s (GoCheckAlertsBatch entries) =
     checkAlerts_batch unmarshal_filter clock s entries"
| "run_task unmarshal_filter clock s GoFlushBuffer = flushBuffer s"

text \<open>
  \<open>NewLogService\<close>: the service over its collaborators, with an empty buffer. (The ticker
  and the goroutine that flushes on each tick belong to real time and are not part of the
  state.)
\<close>

definition NewLogService ::
  "LogRepository \<Rightarrow> RetentionRepository \<Rightarrow> AlertRepository \<Rightarrow> Redis option \<Rightarrow> Config \<Rightarrow> LogService" where
  "NewLogService lr rr ar redisClient cfg =
     \<lparr>logRepo = lr, retentionRepo = rr, alertRepo = ar, redis = redisClient, config = cfg,
      buffer = [], stdout = [], spawned = [], ticks = 0, drawn = 0\<rparr>"

section \<open>Values used in the examples\<close>

text \<open>The zero values of the structs, and stores with nothing in them.\<close>

definition LogEntry_zero :: LogEntry where
  "LogEntry_zero =
     \<lparr>LogEntry.ID = uuid_Nil, LogEntry.TenantID = uuid_Nil, LogEntry.ServiceName = '''',
      LogEntry.Level = '''', Message = '''', Timestamp = 0, LogEntry.TraceID = '''', SpanID = '''',
      LogEntry.UserID = None, LogEntry.RequestID = '''', Metadata = '''', Source = '''', Host = '''',
      LogEntry.Environment = ''''\<rparr>"

definition LogFilter_zero :: LogFilter where
  "LogFilter_zero =
     \<lparr>LogFilter.TenantID = None, LogFilter.ServiceName = '''', LogFilter.Level = '''',
      MinLevel = '''', StartTime = None, EndTime = None, LogFilter.TraceID = '''',
      LogFilter.UserID = None, LogFilter.RequestID = '''', Search = '''',
      LogFilter.Environment = '''', LogFilter.Page = 0, LogFilter.PageSize = 0\<rparr>"

definition LogRepository_of :: "LogEntry list \<Rightarrow> LogRepository" where
  "LogRepository_of es = \<lparr>table = es, script = [], journal = []\<rparr>"

definition RetentionRepository_of :: "LogRetention list \<Rightarrow> RetentionRepository" where
  "RetentionRepository_of ps = \<lparr>policies = ps, retention_script = []\<rparr>"

definition AlertRepository_of :: "LogAlert list \<Rightarrow> time \<Rightarrow> AlertRepository" where
  "AlertRepository_of as t = \<lparr>alerts = as, NOW = t, alert_script = []\<rparr>"

definition Config_days :: "int \<Rightarrow> Config" where
  "Config_days d =
     \<lparr>Retention = \<lparr>Days = d, RetentionConfig.RetentionDays = d, RetentionConfig.MaxSizeGB = 50,
                    CleanupEnabled = True, CleanupCron = ''0 2 * * *''\<rparr>\<rparr>"

text \<open>
  Instants by the day, an entry, a policy and a rule with the fields the examples vary, a
  clock that advances by a nanosecond at each reading, a generator of identifiers, and the
  identifiers of two tenants.
\<close>

definition at_day :: "int \<Rightarrow> time" where
  "at_day d = d * Day"

definition entry_of :: "uuid \<Rightarrow> uuid \<Rightarrow> time \<Rightarrow> LogEntry" where
  "entry_of i tenant t =
     LogEntry_zero\<lparr>LogEntry.ID := i, LogEntry.TenantID := tenant, LogEntry.ServiceName := ''auth'',
                   LogEntry.Level := ''ERROR'', Message := ''login failed'', Timestamp := t\<rparr>"

definition policy_of :: "uuid \<Rightarrow> int \<Rightarrow> LogRetention" where
  "policy_of tenant d =
     \<lparr>LogRetention.ID = 900, LogRetention.TenantID = tenant, LogRetention.RetentionDays = d,
      LogRetention.MaxSizeGB = 10, ArchiveEnabled = False, ArchivePath = ''''\<rparr>"

definition alert_of :: "uuid \<Rightarrow> string \<Rightarrow> string \<Rightarrow> time option \<Rightarrow> LogAlert" where
  "alert_of i name flt lt =
     \<lparr>LogAlert.ID = i, LogAlert.TenantID = 1, Name = name, Description = '''', Enabled = True,
      Filter = flt, Threshold = 1, WindowMins = 5, Severity = ''high'', Channels = ''[]'',
      LastTriggered = lt\<rparr>"

definition clock_from :: "time \<Rightarrow> nat \<Rightarrow> time" where
  "clock_from t k = t + int k"

definition gen_from :: "nat \<Rightarrow> nat \<Rightarrow> uuid" where
  "gen_from n k = of_nat (n + k)"

definition tenant_A :: uuid where
  "tenant_A = 1"

definition tenant_B :: uuid where
  "tenant_B = 2"

text \<open>A service without a cache over given entries, policies and rules, with a default window.\<close>

definition service_of :: "LogEntry list \<Rightarrow> LogRetention list \<Rightarrow> LogAlert list \<Rightarrow> int \<Rightarrow> LogService" where
  "service_of es ps as d =
     NewLogService (LogRepository_of es) (RetentionRepository_of ps) (AlertRepository_of as 0)
       None (Config_days d)"

text \<open>
  A cache whose first command fails (the connection is refused) and whose later commands
  succeed, and a store whose first statement fails.
\<close>

definition redis_refusing_once :: Redis where
  "redis_refusing_once =
     \<lparr>kv = Map.empty, redis_clock = 5000, redis_script = [Some ''connection refused'']\<rparr>"

definition LogRepository_failing_once :: "LogEntry list \<Rightarrow> LogRepository" where
  "LogRepository_failing_once es = \<lparr>table = es, script = [Some ''connection reset''], journal = []\<rparr>"

text \<open>
  A stand-in for \<open>json.Unmarshal\<close> into a \<open>LogFilter\<close>, for the examples only: it agrees
  with the library on the three documents the examples use: the empty object (every field
  keeps its zero value), an object with the keys \<open>service_name\<close> and \<open>min_level\<close>, and a
  lone opening brace (a syntax error).
\<close>

definition doc_auth_fatal :: string where
  \<open>doc_auth_fatal = ''{"service_name":"auth","min_level":"FATAL"}''\<close>

definition sample_unmarshal_filter :: "string \<Rightarrow> error + LogFilter" where
  "sample_unmarshal_filter data =
     (if data = ''{}'' then Inr LogFilter_zero
      else if data = doc_auth_fatal
      then Inr (LogFilter_zero\<lparr>LogFilter.ServiceName := ''auth'', MinLevel := ''FATAL''\<rparr>)
      else Inl ''unexpected end of JSON input'')"

section \<open>The matching rule in the words of the specification\<close>

text \<open>
  The specification's \<open>matches(entry, rule)\<close>, written from its words and not from the
  code: a conjunction over whichever of service name, exact level and tenant the filter
  specifies; a field left unspecified (empty, or no tenant) is a wildcard.
\<close>

definition matches_spec :: "LogFilter \<Rightarrow> LogEntry \<Rightarrow> bool" where
  "matches_spec flt entry =
     ((LogFilter.ServiceName flt = '''' \<or> LogEntry.ServiceName entry = LogFilter.ServiceName flt)
      \<and> (LogFilter.Level flt = '''' \<or> LogEntry.Level entry = LogFilter.Level flt)
      \<and> (case LogFilter.TenantID flt of None \<Rightarrow> True | Some t \<Rightarrow> LogEntry.TenantID entry = t))"

section \<open>The levels at or above a level\<close>

lemma levels_loop_eq:
  "levels_loop level ls found result =
     result @ (if found then ls else dropWhile (\<lambda>l. l \<noteq> level) ls)"
  by (induction ls arbitrary: found result) (auto simp: Let_def)

lemma getLevelsAtOrAbove_dropWhile:
  "getLevelsAtOrAbove level = dropWhile (\<lambda>l. l \<noteq> level) levels"
  by (simp add: getLevelsAtOrAbove_def levels_loop_eq)

lemma getLevelsAtOrAbove_unknown:
  "level \<notin> set levels \<Longrightarrow> getLevelsAtOrAbove level = []"
  by (auto simp: getLevelsAtOrAbove_dropWhile)

lemma selects_append: "selects like (cs @ ds) e = (selects like cs e \<and> selects like ds e)"
  by (simp add: selects_def)

lemma buildQuery_unknown_min_level:
  assumes "MinLevel flt \<noteq> ''''" "MinLevel flt \<notin> set levels"
  shows "\<not> selects like (buildQuery lower flt) e"
  using assms
  by (simp add: buildQuery_def selects_append getLevelsAtOrAbove_unknown) (simp add: selects_def)

text \<open>
  C9. \<open>getLevelsAtOrAbove level\<close> is the part of the list DEBUG, INFO, WARN, ERROR, FATAL that
  starts at \<open>level\<close>. For a level that is none of the five it is empty, and a filter whose
  \<open>min_level\<close> is set to such a value selects no entry: the query returns no rows and a
  count of zero.
\<close>

theorem getLevelsAtOrAbove_suffix:
  "getLevelsAtOrAbove level = dropWhile (\<lambda>l. l \<noteq> level) levels
   \<and> (level \<notin> set levels \<longrightarrow> getLevelsAtOrAbove level = [])
   \<and> (MinLevel flt \<noteq> '''' \<and> MinLevel flt \<notin> set levels \<longrightarrow>
        (\<forall>e. \<not> selects like (buildQuery lower flt) e)
        \<and> (script r = [] \<longrightarrow> fst (LogRepository_Query lower like r flt) = Inr ([], 0)))"
proof (intro conjI impI allI)
  show "getLevelsAtOrAbove level = dropWhile (\<lambda>l. l \<noteq> level) levels"
    by (rule getLevelsAtOrAbove_dropWhile)
next
  assume "level \<notin> set levels"
  then show "getLevelsAtOrAbove level = []" by (rule getLevelsAtOrAbove_unknown)
next
  fix e assume "MinLevel flt \<noteq> '''' \<and> MinLevel flt \<notin> set levels"
  then show "\<not> selects like (buildQuery lower flt) e"
    by (simp add: buildQuery_unknown_min_level)
next
  assume a: "MinLevel flt \<noteq> '''' \<and> MinLevel flt \<notin> set levels" and s: "script r = []"
  have none: "filter (selects like (buildQuery lower flt)) xs = []" for xs
    using a by (simp add: buildQuery_unknown_min_level filter_empty_conv)
  show "fst (LogRepository_Query lower like r flt) = Inr ([], 0)"
    using s by (simp add: LogRepository_Query_def send_def next_outcome_def Let_def none)
qed

theorem getLevelsAtOrAbove_suffix_witness:
  "getLevelsAtOrAbove ''WARN'' = [''WARN'', ''ERROR'', ''FATAL'']
   \<and> ''info'' \<notin> set levels \<and> getLevelsAtOrAbove ''info'' = []
   \<and> MinLevel (LogFilter_zero\<lparr>MinLevel := ''info''\<rparr>) \<noteq> ''''
   \<and> \<not> selects (\<lambda>m p. True) (buildQuery (\<lambda>x. x) (LogFilter_zero\<lparr>MinLevel := ''info''\<rparr>))
          (LogEntry_zero\<lparr>LogEntry.Level := ''INFO''\<rparr>)
   \<and> fst (LogRepository_Query (\<lambda>x. x) (\<lambda>m p. True)
            (LogRepository_of [LogEntry_zero\<lparr>LogEntry.Level := ''INFO''\<rparr>])
            (LogFilter_zero\<lparr>MinLevel := ''info''\<rparr>)) = Inr ([], 0)"
  using getLevelsAtOrAbove_suffix [of "''WARN''" "LogFilter_zero\<lparr>MinLevel := ''info''\<rparr>"
      "\<lambda>m p. True" "\<lambda>x. x" "LogRepository_of [LogEntry_zero\<lparr>LogEntry.Level := ''INFO''\<rparr>]"]
    getLevelsAtOrAbove_suffix [of "''info''" "LogFilter_zero\<lparr>MinLevel := ''info''\<rparr>"
      "\<lambda>m p. True" "\<lambda>x. x" "LogRepository_of [LogEntry_zero\<lparr>LogEntry.Level := ''INFO''\<rparr>]"]
  by (simp add: levels_def LogLevelDebug_def LogLevelInfo_def LogLevelWarn_def LogLevelError_def
      LogLevelFatal_def LogFilter_zero_def LogRepository_of_def)

section \<open>Cleanup when the policies cannot be loaded\<close>

text \<open>
  C10. When \<open>FindAll\<close> fails, \<open>Cleanup\<close> returns that error at once: the entry store is
  as it was (no row deleted, no statement sent to it, the default pass included), nothing
  is printed and the clock is not read; only the retention store has seen a statement.
\<close>

theorem Cleanup_load_failure:
  assumes "snd (fst (FindAll (retentionRepo s))) = Some err"
  shows "fst (Cleanup clock s) = Some err
         \<and> logRepo (snd (Cleanup clock s)) = logRepo s
         \<and> stdout (snd (Cleanup clock s)) = stdout s
         \<and> ticks (snd (Cleanup clock s)) = ticks s
         \<and> snd (Cleanup clock s) = s\<lparr>retentionRepo := snd (FindAll (retentionRepo s))\<rparr>"
  using assms by (auto simp: Cleanup_def split: prod.splits option.splits)

theorem Cleanup_load_failure_witness:
  "snd (fst (FindAll \<lparr>policies = [policy_of tenant_A 7], retention_script = [Some ''connection refused'']\<rparr>))
     = Some ''connection refused''
   \<and> fst (Cleanup (clock_from (at_day 1000))
        (NewLogService (LogRepository_of [entry_of 5 tenant_A (at_day 10)])
           \<lparr>policies = [policy_of tenant_A 7], retention_script = [Some ''connection refused'']\<rparr>
           (AlertRepository_of [] 0) None (Config_days 30))) = Some ''connection refused''
   \<and> logRepo (snd (Cleanup (clock_from (at_day 1000))
        (NewLogService (LogRepository_of [entry_of 5 tenant_A (at_day 10)])
           \<lparr>policies = [policy_of tenant_A 7], retention_script = [Some ''connection refused'']\<rparr>
           (AlertRepository_of [] 0) None (Config_days 30))))
      = \<lparr>table = [entry_of 5 tenant_A (at_day 10)], script = [], journal = []\<rparr>"
  using Cleanup_load_failure [of
      "NewLogService (LogRepository_of [entry_of 5 tenant_A (at_day 10)])
           \<lparr>policies = [policy_of tenant_A 7], retention_script = [Some ''connection refused'']\<rparr>
           (AlertRepository_of [] 0) None (Config_days 30)" "''connection refused''"
      "clock_from (at_day 1000)"]
  by (simp add: FindAll_def next_outcome_def NewLogService_def LogRepository_of_def)

section \<open>Flushing the buffer\<close>

text \<open>
  C4. \<open>flushBuffer\<close> leaves the buffer empty. With an empty buffer it changes nothing (no
  statement reaches the store). Otherwise it sends the store one \<open>CreateInBatches\<close> call
  whose argument is the buffer as it was; when the call succeeds the table grows by exactly
  these entries, in order, and when it fails the table is unchanged, the failure is printed,
  no second call follows, nothing is started and the buffer stays empty.
\<close>

theorem flushBuffer_drains:
  "buffer (flushBuffer s) = []
   \<and> (buffer s = [] \<longrightarrow> flushBuffer s = s)
   \<and> (buffer s \<noteq> [] \<longrightarrow>
        journal (logRepo (flushBuffer s)) = journal (logRepo s) @ [CallCreateInBatches (buffer s) 1000]
        \<and> (fst (next_outcome (script (logRepo s))) = None \<longrightarrow>
             table (logRepo (flushBuffer s)) = table (logRepo s) @ buffer s
             \<and> stdout (flushBuffer s) = stdout s)
        \<and> (\<forall>err. fst (next_outcome (script (logRepo s))) = Some err \<longrightarrow>
             table (logRepo (flushBuffer s)) = table (logRepo s)
             \<and> stdout (flushBuffer s) = stdout s @ [FlushFailed err]
             \<and> spawned (flushBuffer s) = spawned s))"
  by (auto simp: flushBuffer_def CreateBatch_def send_def Let_def split: prod.splits option.splits)

theorem flushBuffer_drains_witness:
  "buffer (NewLogService (LogRepository_of []) (RetentionRepository_of []) (AlertRepository_of [] 0)
             None (Config_days 30)\<lparr>buffer := [entry_of 5 tenant_A 10, entry_of 6 tenant_B 11]\<rparr>) \<noteq> []
   \<and> table (logRepo (flushBuffer
        (NewLogService (LogRepository_of []) (RetentionRepository_of []) (AlertRepository_of [] 0)
             None (Config_days 30)\<lparr>buffer := [entry_of 5 tenant_A 10, entry_of 6 tenant_B 11]\<rparr>)))
      = [entry_of 5 tenant_A 10, entry_of 6 tenant_B 11]
   \<and> buffer (flushBuffer
        (NewLogService (LogRepository_of []) (RetentionRepository_of []) (AlertRepository_of [] 0)
             None (Config_days 30)\<lparr>buffer := [entry_of 5 tenant_A 10, entry_of 6 tenant_B 11]\<rparr>)) = []
   \<and> table (logRepo (flushBuffer
        (NewLogService \<lparr>table = [], script = [Some ''timeout''], journal = []\<rparr> (RetentionRepository_of [])
             (AlertRepository_of [] 0) None (Config_days 30)\<lparr>buffer := [entry_of 5 tenant_A 10]\<rparr>))) = []
   \<and> buffer (flushBuffer
        (NewLogService \<lparr>table = [], script = [Some ''timeout''], journal = []\<rparr> (RetentionRepository_of [])
             (AlertRepository_of [] 0) None (Config_days 30)\<lparr>buffer := [entry_of 5 tenant_A 10]\<rparr>)) = []
   \<and> flushBuffer (NewLogService (LogRepository_of []) (RetentionRepository_of []) (AlertRepository_of [] 0)
             None (Config_days 30))
      = NewLogService (LogRepository_of []) (RetentionRepository_of []) (AlertRepository_of [] 0)
             None (Config_days 30)"
  using flushBuffer_drains [of
      "NewLogService (LogRepository_of []) (RetentionRepository_of []) (AlertRepository_of [] 0)
             None (Config_days 30)\<lparr>buffer := [entry_of 5 tenant_A 10, entry_of 6 tenant_B 11]\<rparr>"]
    flushBuffer_drains [of
      "NewLogService \<lparr>table = [], script = [Some ''timeout''], journal = []\<rparr> (RetentionRepository_of [])
             (AlertRepository_of [] 0) None (Config_days 30)\<lparr>buffer := [entry_of 5 tenant_A 10]\<rparr>"]
    flushBuffer_drains [of
      "NewLogService (LogRepository_of []) (RetentionRepository_of []) (AlertRepository_of [] 0)
             None (Config_days 30)"]
  by (simp add: NewLogService_def LogRepository_of_def next_outcome_def)

section \<open>Defaults at ingestion\<close>

lemma set_defaults_eq:
  "set_defaults gen now s e =
     (e\<lparr>LogEntry.ID := (if LogEntry.ID e = uuid_Nil then gen (drawn s) else LogEntry.ID e),
        Timestamp := (if IsZero (Timestamp e) then now else Timestamp e)\<rparr>,
      if LogEntry.ID e = uuid_Nil then s\<lparr>drawn := Suc (drawn s)\<rparr> else s)"
  by (simp add: set_defaults_def uuid_New_def)

lemma batch_defaults_length:
  "length (fst (batch_defaults gen now s es)) = length es"
  by (induction es arbitrary: s) (simp_all add: set_defaults_eq case_prod_beta)

lemma batch_defaults_drawn:
  "drawn (snd (batch_defaults gen now s es))
     = drawn s + length (filter (\<lambda>e. LogEntry.ID e = uuid_Nil) es)"
  by (induction es arbitrary: s) (simp_all add: set_defaults_eq case_prod_beta)

lemma batch_defaults_nth:
  "i < length es \<Longrightarrow>
   fst (batch_defaults gen now s es) ! i =
     (es ! i)\<lparr>LogEntry.ID :=
                 (if LogEntry.ID (es ! i) = uuid_Nil
                  then gen (drawn s + length (filter (\<lambda>e. LogEntry.ID e = uuid_Nil) (take i es)))
                  else LogEntry.ID (es ! i)),
               Timestamp := (if IsZero (Timestamp (es ! i)) then now else Timestamp (es ! i))\<rparr>"
proof (induction es arbitrary: s i)
  case Nil
  then show ?case by simp
next
  case (Cons e es)
  show ?case
  proof (cases i)
    case 0
    then show ?thesis by (simp add: set_defaults_eq case_prod_beta)
  next
    case (Suc j)
    with Cons.prems have j: "j < length es" by simp
    show ?thesis
      using Cons.IH [OF j] Suc
      by (simp add: set_defaults_eq case_prod_beta)
  qed
qed

lemma IngestBatch_entries:
  "LogBatch.Entries (snd (fst (IngestBatch gen clock s batch)))
     = fst (batch_defaults gen (clock (ticks s)) (s\<lparr>ticks := Suc (ticks s)\<rparr>) (LogBatch.Entries batch))"
  by (simp add: IngestBatch_def time_Now_def Let_def case_prod_beta)

lemma IngestSingle_entry:
  "snd (fst (IngestSingle gen clock s entry)) =
     entry\<lparr>LogEntry.ID := (if LogEntry.ID entry = uuid_Nil then gen (drawn s) else LogEntry.ID entry),
           Timestamp := (if IsZero (Timestamp entry) then clock (ticks s) else Timestamp entry)\<rparr>"
  by (simp add: IngestSingle_def uuid_New_def time_Now_def Let_def case_prod_beta)

lemma IngestSingle_journal:
  "journal (logRepo (snd (IngestSingle gen clock s entry)))
     = journal (logRepo s) @ [CallCreate (snd (fst (IngestSingle gen clock s entry)))]"
  by (simp add: IngestSingle_def uuid_New_def time_Now_def Create_def send_def Let_def
      case_prod_beta split: option.splits)


lemma filter_take_mono:
  "a \<le> b \<Longrightarrow> length (filter P (take a es)) \<le> length (filter P (take b es))"
proof -
  assume "a \<le> b"
  then have "take b es = take a es @ take (b - a) (drop a es)"
    by (metis add_diff_inverse_nat not_less take_add)
  then show ?thesis by simp
qed

lemma filter_take_Suc:
  "i < length es \<Longrightarrow> P (es ! i) \<Longrightarrow>
   length (filter P (take (Suc i) es)) = Suc (length (filter P (take i es)))"
  by (simp add: take_Suc_conv_app_nth)

lemma filter_take_less:
  assumes "i < j" "j \<le> length es" "P (es ! i)"
  shows "length (filter P (take i es)) < length (filter P (take j es))"
proof -
  have "Suc (length (filter P (take i es))) = length (filter P (take (Suc i) es))"
    using assms by (simp add: filter_take_Suc)
  also have "\<dots> \<le> length (filter P (take j es))"
    using assms by (intro filter_take_mono) simp
  finally show ?thesis by simp
qed

lemma IngestBatch_journal:
  "LogBatch.Entries batch \<noteq> [] \<Longrightarrow>
   journal (logRepo (snd (IngestBatch gen clock s batch)))
     = journal (logRepo s)
       @ [CallCreateInBatches (LogBatch.Entries (snd (fst (IngestBatch gen clock s batch)))) 1000]"
proof -
  assume ne: "LogBatch.Entries batch \<noteq> []"
  have len: "length (fst (batch_defaults gen now s' (LogBatch.Entries batch))) \<noteq> 0" for now s'
    using ne by (simp add: batch_defaults_length)
  have keep: "logRepo (snd (batch_defaults gen now s' es)) = logRepo s'" for now s' es
    by (induction es arbitrary: s') (simp_all add: set_defaults_eq case_prod_beta)
  show ?thesis
    using len
    by (simp add: IngestBatch_def time_Now_def CreateBatch_def send_def Let_def case_prod_beta keep
        split: option.splits)
qed

text \<open>
  C8. \<open>IngestSingle\<close> and \<open>IngestBatch\<close> change an entry in two fields at most. An absent
  identifier (\<open>uuid.Nil\<close>) becomes the next value drawn from \<open>uuid.New()\<close>, a present one is
  kept; an absent timestamp (the zero time) becomes the reading of the clock made in the call
  (for a batch, the one reading made before the loop), a present one is kept. The entries so
  completed are what the store is asked to write. In a batch the entries without identifier
  get successive draws, so that their identifiers differ whenever the generator does not
  repeat itself over these draws.
\<close>

theorem ingest_assigns_defaults:
  "snd (fst (IngestSingle gen clock s entry)) =
     entry\<lparr>LogEntry.ID := (if LogEntry.ID entry = uuid_Nil then gen (drawn s) else LogEntry.ID entry),
           Timestamp := (if IsZero (Timestamp entry) then clock (ticks s) else Timestamp entry)\<rparr>
   \<and> journal (logRepo (snd (IngestSingle gen clock s entry)))
       = journal (logRepo s) @ [CallCreate (snd (fst (IngestSingle gen clock s entry)))]
   \<and> length (LogBatch.Entries (snd (fst (IngestBatch gen clock s batch))))
       = length (LogBatch.Entries batch)
   \<and> (\<forall>i. i < length (LogBatch.Entries batch) \<longrightarrow>
         LogBatch.Entries (snd (fst (IngestBatch gen clock s batch))) ! i =
           (LogBatch.Entries batch ! i)
             \<lparr>LogEntry.ID :=
                (if LogEntry.ID (LogBatch.Entries batch ! i) = uuid_Nil
                 then gen (drawn s + length (filter (\<lambda>e. LogEntry.ID e = uuid_Nil)
                                              (take i (LogBatch.Entries batch))))
                 else LogEntry.ID (LogBatch.Entries batch ! i)),
              Timestamp :=
                (if IsZero (Timestamp (LogBatch.Entries batch ! i)) then clock (ticks s)
                 else Timestamp (LogBatch.Entries batch ! i))\<rparr>)
   \<and> (LogBatch.Entries batch \<noteq> [] \<longrightarrow>
         journal (logRepo (snd (IngestBatch gen clock s batch)))
           = journal (logRepo s)
             @ [CallCreateInBatches (LogBatch.Entries (snd (fst (IngestBatch gen clock s batch)))) 1000])
   \<and> (inj_on gen {drawn s ..< drawn s + length (filter (\<lambda>e. LogEntry.ID e = uuid_Nil)
                                                  (LogBatch.Entries batch))} \<longrightarrow>
        (\<forall>i j. i < j \<and> j < length (LogBatch.Entries batch)
               \<and> LogEntry.ID (LogBatch.Entries batch ! i) = uuid_Nil
               \<and> LogEntry.ID (LogBatch.Entries batch ! j) = uuid_Nil \<longrightarrow>
               LogEntry.ID (LogBatch.Entries (snd (fst (IngestBatch gen clock s batch))) ! i)
                 \<noteq> LogEntry.ID (LogBatch.Entries (snd (fst (IngestBatch gen clock s batch))) ! j)))"
proof (intro conjI impI allI)
  show "snd (fst (IngestSingle gen clock s entry)) =
     entry\<lparr>LogEntry.ID := (if LogEntry.ID entry = uuid_Nil then gen (drawn s) else LogEntry.ID entry),
           Timestamp := (if IsZero (Timestamp entry) then clock (ticks s) else Timestamp entry)\<rparr>"
    by (rule IngestSingle_entry)
next
  show "journal (logRepo (snd (IngestSingle gen clock s entry)))
       = journal (logRepo s) @ [CallCreate (snd (fst (IngestSingle gen clock s entry)))]"
    by (rule IngestSingle_journal)
next
  show "length (LogBatch.Entries (snd (fst (IngestBatch gen clock s batch))))
       = length (LogBatch.Entries batch)"
    by (simp add: IngestBatch_entries batch_defaults_length)
next
  fix i assume "i < length (LogBatch.Entries batch)"
  then show "LogBatch.Entries (snd (fst (IngestBatch gen clock s batch))) ! i =
           (LogBatch.Entries batch ! i)
             \<lparr>LogEntry.ID :=
                (if LogEntry.ID (LogBatch.Entries batch ! i) = uuid_Nil
                 then gen (drawn s + length (filter (\<lambda>e. LogEntry.ID e = uuid_Nil)
                                              (take i (LogBatch.Entries batch))))
                 else LogEntry.ID (LogBatch.Entries batch ! i)),
              Timestamp :=
                (if IsZero (Timestamp (LogBatch.Entries batch ! i)) then clock (ticks s)
                 else Timestamp (LogBatch.Entries batch ! i))\<rparr>"
    by (simp add: IngestBatch_entries batch_defaults_nth)
next
  assume "LogBatch.Entries batch \<noteq> []"
  then show "journal (logRepo (snd (IngestBatch gen clock s batch)))
           = journal (logRepo s)
             @ [CallCreateInBatches (LogBatch.Entries (snd (fst (IngestBatch gen clock s batch)))) 1000]"
    by (rule IngestBatch_journal)
next
  fix i j
  let ?es = "LogBatch.Entries batch"
  let ?nil = "\<lambda>e. LogEntry.ID e = uuid_Nil"
  assume inj: "inj_on gen {drawn s ..< drawn s + length (filter ?nil ?es)}"
    and ij: "i < j \<and> j < length ?es \<and> LogEntry.ID (?es ! i) = uuid_Nil
               \<and> LogEntry.ID (?es ! j) = uuid_Nil"
  have lt: "length (filter ?nil (take i ?es)) < length (filter ?nil (take j ?es))"
    using ij by (intro filter_take_less) simp_all
  have "length (filter ?nil (take j ?es)) < length (filter ?nil (take (length ?es) ?es))"
    using ij by (intro filter_take_less) simp_all
  then have top: "length (filter ?nil (take j ?es)) < length (filter ?nil ?es)" by simp
  have "gen (drawn s + length (filter ?nil (take i ?es)))
          \<noteq> gen (drawn s + length (filter ?nil (take j ?es)))"
  proof
    assume "gen (drawn s + length (filter ?nil (take i ?es)))
              = gen (drawn s + length (filter ?nil (take j ?es)))"
    with inj have "drawn s + length (filter ?nil (take i ?es))
                     = drawn s + length (filter ?nil (take j ?es))"
      using lt top by (auto dest!: inj_onD)
    with lt show False by simp
  qed
  then show "LogEntry.ID (LogBatch.Entries (snd (fst (IngestBatch gen clock s batch))) ! i)
                 \<noteq> LogEntry.ID (LogBatch.Entries (snd (fst (IngestBatch gen clock s batch))) ! j)"
    using ij by (simp add: IngestBatch_entries batch_defaults_nth)
qed


theorem ingest_assigns_defaults_witness:
  "LogEntry.ID (snd (fst (IngestSingle (gen_from 100) (clock_from (at_day 1000))
       (service_of [] [] [] 30) LogEntry_zero))) = 100
   \<and> Timestamp (snd (fst (IngestSingle (gen_from 100) (clock_from (at_day 1000))
       (service_of [] [] [] 30) LogEntry_zero))) = at_day 1000
   \<and> snd (fst (IngestSingle (gen_from 100) (clock_from (at_day 1000))
       (service_of [] [] [] 30) (entry_of 5 tenant_A 42))) = entry_of 5 tenant_A 42
   \<and> map LogEntry.ID (LogBatch.Entries (snd (fst (IngestBatch (gen_from 100) (clock_from (at_day 1000))
       (service_of [] [] [] 30)
       \<lparr>LogBatch.Entries = [LogEntry_zero, entry_of 5 tenant_A 42, LogEntry_zero]\<rparr>))))
     = [100, 5, 101]
   \<and> map Timestamp (LogBatch.Entries (snd (fst (IngestBatch (gen_from 100) (clock_from (at_day 1000))
       (service_of [] [] [] 30)
       \<lparr>LogBatch.Entries = [LogEntry_zero, entry_of 5 tenant_A 42, LogEntry_zero]\<rparr>))))
     = [at_day 1000, 42, at_day 1000]"
  using ingest_assigns_defaults [of "gen_from 100" "clock_from (at_day 1000)"
      "service_of [] [] [] 30" LogEntry_zero
      "\<lparr>LogBatch.Entries = [LogEntry_zero, entry_of 5 tenant_A 42, LogEntry_zero]\<rparr>"]
    ingest_assigns_defaults [of "gen_from 100" "clock_from (at_day 1000)"
      "service_of [] [] [] 30" "entry_of 5 tenant_A 42"
      "\<lparr>LogBatch.Entries = [LogEntry_zero, entry_of 5 tenant_A 42, LogEntry_zero]\<rparr>"]
  by (simp add: IngestBatch_def IngestSingle_def set_defaults_def uuid_New_def time_Now_def
      Create_def CreateBatch_def send_def next_outcome_def Let_def
      service_of_def NewLogService_def LogRepository_of_def gen_from_def clock_from_def
      LogEntry_zero_def entry_of_def uuid_Nil_def IsZero_def tenant_A_def)

section \<open>Matching an entry against a rule\<close>

lemma matchesAlert_parsed:
  "unmarshal_filter (Filter alert) = Inr flt \<Longrightarrow>
   matchesAlert unmarshal_filter entry alert = matches_spec flt entry"
  by (auto simp: matchesAlert_def matches_spec_def split: option.splits)

lemma matches_spec_cong:
  "LogFilter.ServiceName flt' = LogFilter.ServiceName flt \<Longrightarrow>
   LogFilter.Level flt' = LogFilter.Level flt \<Longrightarrow>
   LogFilter.TenantID flt' = LogFilter.TenantID flt \<Longrightarrow>
   matches_spec flt' entry = matches_spec flt entry"
  by (simp add: matches_spec_def)

text \<open>
  C6. For a rule whose filter document decodes to the filter \<open>flt\<close>, \<open>matchesAlert\<close> is
  the specification's conjunction: it holds exactly when each of service name, exact level
  and tenant that \<open>flt\<close> specifies equals the entry's field, an unspecified field being a
  wildcard. No other field does anything: a second rule whose filter agrees with \<open>flt\<close> on
  these three fields, whatever its minimum level, time range, search text, environment or
  trace, user and request identifiers, matches the same entries.
\<close>

theorem matchesAlert_conjunction:
  assumes "unmarshal_filter (Filter alert) = Inr flt"
  shows "matchesAlert unmarshal_filter entry alert = matches_spec flt entry
         \<and> (\<forall>alert' flt'.
               unmarshal_filter (Filter alert') = Inr flt'
               \<and> LogFilter.ServiceName flt' = LogFilter.ServiceName flt
               \<and> LogFilter.Level flt' = LogFilter.Level flt
               \<and> LogFilter.TenantID flt' = LogFilter.TenantID flt \<longrightarrow>
               matchesAlert unmarshal_filter entry alert'
                 = matchesAlert unmarshal_filter entry alert)"
proof (intro conjI allI impI)
  show "matchesAlert unmarshal_filter entry alert = matches_spec flt entry"
    using assms by (rule matchesAlert_parsed)
next
  fix alert' :: LogAlert and flt' :: LogFilter
  assume h: "unmarshal_filter (Filter alert') = Inr flt'
               \<and> LogFilter.ServiceName flt' = LogFilter.ServiceName flt
               \<and> LogFilter.Level flt' = LogFilter.Level flt
               \<and> LogFilter.TenantID flt' = LogFilter.TenantID flt"
  then have "matchesAlert unmarshal_filter entry alert' = matches_spec flt' entry"
    by (simp add: matchesAlert_parsed)
  also have "\<dots> = matches_spec flt entry"
    using h by (intro matches_spec_cong) simp_all
  also have "\<dots> = matchesAlert unmarshal_filter entry alert"
    using assms by (simp add: matchesAlert_parsed)
  finally show "matchesAlert unmarshal_filter entry alert'
                 = matchesAlert unmarshal_filter entry alert" .
qed

theorem matchesAlert_conjunction_witness:
  "sample_unmarshal_filter (Filter (alert_of 1 ''auth errors'' doc_auth_fatal None))
     = Inr (LogFilter_zero\<lparr>LogFilter.ServiceName := ''auth'', MinLevel := ''FATAL''\<rparr>)
   \<and> matchesAlert sample_unmarshal_filter (entry_of 5 tenant_A 42)
        (alert_of 1 ''auth errors'' doc_auth_fatal None)
   \<and> \<not> matchesAlert sample_unmarshal_filter
          ((entry_of 5 tenant_A 42)\<lparr>LogEntry.ServiceName := ''gateway''\<rparr>)
          (alert_of 1 ''auth errors'' doc_auth_fatal None)"
proof -
  have parsed: "sample_unmarshal_filter (Filter (alert_of 1 ''auth errors'' doc_auth_fatal None))
     = Inr (LogFilter_zero\<lparr>LogFilter.ServiceName := ''auth'', MinLevel := ''FATAL''\<rparr>)"
    by (simp add: sample_unmarshal_filter_def alert_of_def doc_auth_fatal_def)
  have yes: "matches_spec (LogFilter_zero\<lparr>LogFilter.ServiceName := ''auth'', MinLevel := ''FATAL''\<rparr>)
               (entry_of 5 tenant_A 42)"
    by (simp add: matches_spec_def LogFilter_zero_def entry_of_def)
  have no: "\<not> matches_spec (LogFilter_zero\<lparr>LogFilter.ServiceName := ''auth'', MinLevel := ''FATAL''\<rparr>)
               ((entry_of 5 tenant_A 42)\<lparr>LogEntry.ServiceName := ''gateway''\<rparr>)"
    by (simp add: matches_spec_def LogFilter_zero_def entry_of_def)
  show ?thesis
    using parsed yes no
      matchesAlert_conjunction [of sample_unmarshal_filter
        "alert_of 1 ''auth errors'' doc_auth_fatal None"
        "LogFilter_zero\<lparr>LogFilter.ServiceName := ''auth'', MinLevel := ''FATAL''\<rparr>"
        "entry_of 5 tenant_A 42", THEN conjunct1]
      matchesAlert_conjunction [of sample_unmarshal_filter
        "alert_of 1 ''auth errors'' doc_auth_fatal None"
        "LogFilter_zero\<lparr>LogFilter.ServiceName := ''auth'', MinLevel := ''FATAL''\<rparr>"
        "(entry_of 5 tenant_A 42)\<lparr>LogEntry.ServiceName := ''gateway''\<rparr>", THEN conjunct1]
    by blast
qed

section \<open>The cooldown of a rule\<close>

lemma Sub_less_Minute: "(Sub now lt < Minute) = (now - lt < Minute)"
  by (simp add: Sub_def Let_def maxDuration_def minDuration_def Minute_def Second_def)

lemma triggerAlert_never:
  "LastTriggered alert = None \<Longrightarrow>
   triggerAlert clock s alert entry =
     s\<lparr>alertRepo := snd (UpdateLastTriggered (alertRepo s) (LogAlert.ID alert)),
       stdout := stdout s @ [AlertTriggered (Name alert) (Message entry)]\<rparr>"
  by (simp add: triggerAlert_def case_prod_beta)

lemma triggerAlert_armed:
  "LastTriggered alert = Some lt \<Longrightarrow> Minute \<le> clock (ticks s) - lt \<Longrightarrow>
   triggerAlert clock s alert entry =
     s\<lparr>ticks := Suc (ticks s),
       alertRepo := snd (UpdateLastTriggered (alertRepo s) (LogAlert.ID alert)),
       stdout := stdout s @ [AlertTriggered (Name alert) (Message entry)]\<rparr>"
  by (simp add: triggerAlert_def time_Since_def time_Now_def case_prod_beta Sub_less_Minute)

lemma triggerAlert_cooling:
  "LastTriggered alert = Some lt \<Longrightarrow> clock (ticks s) - lt < Minute \<Longrightarrow>
   triggerAlert clock s alert entry = s\<lparr>ticks := Suc (ticks s)\<rparr>"
  by (simp add: triggerAlert_def time_Since_def time_Now_def case_prod_beta Sub_less_Minute)

lemma UpdateLastTriggered_ok:
  "fst (next_outcome (alert_script r)) = None \<Longrightarrow>
   alerts (snd (UpdateLastTriggered r aid)) =
     map (\<lambda>a. if LogAlert.ID a = aid then a\<lparr>LastTriggered := Some (NOW r)\<rparr> else a) (alerts r)"
  by (auto simp: UpdateLastTriggered_def split: prod.splits option.splits)

text \<open>
  At exactly sixty seconds after the last trigger the rule fires: \<open>time.Since\<close> is then
  the full minute, which is not less than \<open>time.Minute\<close>.
\<close>

theorem triggerAlert_boundary_counterexample:
  "LastTriggered (alert_of 1 ''auth errors'' ''{}'' (Some (at_day 1000 - 60 * Second)))
     = Some (at_day 1000 - 60 * Second)
   \<and> clock_from (at_day 1000) 0 - (at_day 1000 - 60 * Second) = 60 * Second
   \<and> stdout (triggerAlert (clock_from (at_day 1000))
       ((service_of [] [] [] 30)
          \<lparr>alertRepo := AlertRepository_of
             [alert_of 1 ''auth errors'' ''{}'' (Some (at_day 1000 - 60 * Second))] (at_day 1000)\<rparr>)
       (alert_of 1 ''auth errors'' ''{}'' (Some (at_day 1000 - 60 * Second))) (entry_of 5 tenant_A 42))
     = [AlertTriggered ''auth errors'' ''login failed'']
   \<and> map LastTriggered (alerts (alertRepo (triggerAlert (clock_from (at_day 1000))
       ((service_of [] [] [] 30)
          \<lparr>alertRepo := AlertRepository_of
             [alert_of 1 ''auth errors'' ''{}'' (Some (at_day 1000 - 60 * Second))] (at_day 1000)\<rparr>)
       (alert_of 1 ''auth errors'' ''{}'' (Some (at_day 1000 - 60 * Second))) (entry_of 5 tenant_A 42))))
     = [Some (at_day 1000)]"
  by (simp add: triggerAlert_def time_Since_def time_Now_def Sub_def Let_def maxDuration_def
      minDuration_def UpdateLastTriggered_def next_outcome_def
      service_of_def NewLogService_def AlertRepository_of_def alert_of_def entry_of_def
      LogEntry_zero_def clock_from_def Minute_def Second_def at_day_def Day_def)

text \<open>
  C3 (amended). When \<open>triggerAlert\<close> is reached with a rule whose \<open>LastTriggered\<close> is nil,
  or at least sixty seconds before the reading of the clock (exactly sixty included), the
  notification is printed and the alert store is asked to set the rule's \<open>last_triggered\<close>
  to its \<open>NOW()\<close>; when that statement succeeds, the stored rule carries this instant. When
  less than sixty seconds have passed, the trigger is dropped: nothing is printed and no
  store is touched (the state differs by the one reading of the clock only).
\<close>

theorem triggerAlert_cooldown:
  "(LastTriggered alert = None
      \<or> (\<exists>lt. LastTriggered alert = Some lt \<and> Minute \<le> clock (ticks s) - lt) \<longrightarrow>
      stdout (triggerAlert clock s alert entry)
        = stdout s @ [AlertTriggered (Name alert) (Message entry)]
      \<and> alertRepo (triggerAlert clock s alert entry)
        = snd (UpdateLastTriggered (alertRepo s) (LogAlert.ID alert))
      \<and> (fst (next_outcome (alert_script (alertRepo s))) = None \<longrightarrow>
           alerts (alertRepo (triggerAlert clock s alert entry))
             = map (\<lambda>a. if LogAlert.ID a = LogAlert.ID alert
                         then a\<lparr>LastTriggered := Some (NOW (alertRepo s))\<rparr> else a)
                   (alerts (alertRepo s))))
   \<and> ((\<exists>lt. LastTriggered alert = Some lt \<and> clock (ticks s) - lt < Minute) \<longrightarrow>
        triggerAlert clock s alert entry = s\<lparr>ticks := Suc (ticks s)\<rparr>
        \<and> stdout (triggerAlert clock s alert entry) = stdout s
        \<and> alertRepo (triggerAlert clock s alert entry) = alertRepo s)"
proof (intro conjI impI)
  assume a: "LastTriggered alert = None
      \<or> (\<exists>lt. LastTriggered alert = Some lt \<and> Minute \<le> clock (ticks s) - lt)"
  then show out: "stdout (triggerAlert clock s alert entry)
        = stdout s @ [AlertTriggered (Name alert) (Message entry)]"
    by (auto simp: triggerAlert_never triggerAlert_armed)
  from a show repo: "alertRepo (triggerAlert clock s alert entry)
        = snd (UpdateLastTriggered (alertRepo s) (LogAlert.ID alert))"
    by (auto simp: triggerAlert_never triggerAlert_armed)
  assume "fst (next_outcome (alert_script (alertRepo s))) = None"
  then show "alerts (alertRepo (triggerAlert clock s alert entry))
             = map (\<lambda>a. if LogAlert.ID a = LogAlert.ID alert
                         then a\<lparr>LastTriggered := Some (NOW (alertRepo s))\<rparr> else a)
                   (alerts (alertRepo s))"
    by (simp add: repo UpdateLastTriggered_ok)
next
  assume "\<exists>lt. LastTriggered alert = Some lt \<and> clock (ticks s) - lt < Minute"
  then show "triggerAlert clock s alert entry = s\<lparr>ticks := Suc (ticks s)\<rparr>"
    by (auto simp: triggerAlert_cooling)
next
  assume "\<exists>lt. LastTriggered alert = Some lt \<and> clock (ticks s) - lt < Minute"
  then show "stdout (triggerAlert clock s alert entry) = stdout s"
    by (auto simp: triggerAlert_cooling)
next
  assume "\<exists>lt. LastTriggered alert = Some lt \<and> clock (ticks s) - lt < Minute"
  then show "alertRepo (triggerAlert clock s alert entry) = alertRepo s"
    by (auto simp: triggerAlert_cooling)
qed


theorem triggerAlert_cooldown_witness:
  "stdout (triggerAlert (clock_from (at_day 1000))
       ((service_of [] [] [] 30)
          \<lparr>alertRepo := AlertRepository_of [alert_of 1 ''auth errors'' ''{}'' None] (at_day 1000)\<rparr>)
       (alert_of 1 ''auth errors'' ''{}'' None) (entry_of 5 tenant_A 42))
     = [AlertTriggered ''auth errors'' ''login failed'']
   \<and> map LastTriggered (alerts (alertRepo (triggerAlert (clock_from (at_day 1000))
       ((service_of [] [] [] 30)
          \<lparr>alertRepo := AlertRepository_of [alert_of 1 ''auth errors'' ''{}'' None] (at_day 1000)\<rparr>)
       (alert_of 1 ''auth errors'' ''{}'' None) (entry_of 5 tenant_A 42))))
     = [Some (at_day 1000)]
   \<and> clock_from (at_day 1000) 0 - (at_day 1000 - 30 * Second) < Minute
   \<and> stdout (triggerAlert (clock_from (at_day 1000))
       ((service_of [] [] [] 30)
          \<lparr>alertRepo := AlertRepository_of
             [alert_of 1 ''auth errors'' ''{}'' (Some (at_day 1000 - 30 * Second))] (at_day 1000)\<rparr>)
       (alert_of 1 ''auth errors'' ''{}'' (Some (at_day 1000 - 30 * Second))) (entry_of 5 tenant_A 42))
     = []"
  using triggerAlert_cooldown [of "alert_of 1 ''auth errors'' ''{}'' None" "clock_from (at_day 1000)"
      "(service_of [] [] [] 30)
          \<lparr>alertRepo := AlertRepository_of [alert_of 1 ''auth errors'' ''{}'' None] (at_day 1000)\<rparr>"
      "entry_of 5 tenant_A 42"]
    triggerAlert_cooldown [of "alert_of 1 ''auth errors'' ''{}'' (Some (at_day 1000 - 30 * Second))"
      "clock_from (at_day 1000)"
      "(service_of [] [] [] 30)
          \<lparr>alertRepo := AlertRepository_of
             [alert_of 1 ''auth errors'' ''{}'' (Some (at_day 1000 - 30 * Second))] (at_day 1000)\<rparr>"
      "entry_of 5 tenant_A 42"]
  by (simp add: triggerAlert_def time_Since_def time_Now_def Sub_def Let_def maxDuration_def
      minDuration_def UpdateLastTriggered_def next_outcome_def
      service_of_def NewLogService_def AlertRepository_of_def alert_of_def entry_of_def
      LogEntry_zero_def clock_from_def Minute_def Second_def at_day_def Day_def)

section \<open>Failures during alert evaluation\<close>

lemma checkAlerts_loop_append:
  "checkAlerts_loop um clock s entry (xs @ ys)
     = checkAlerts_loop um clock (checkAlerts_loop um clock s entry xs) entry ys"
  by (induction xs arbitrary: s) simp_all

lemma matchesAlert_parse_error:
  "um (Filter alert) = Inl err \<Longrightarrow> \<not> matchesAlert um entry alert"
  by (simp add: matchesAlert_def)

lemma checkAlerts_load_error:
  "fst (next_outcome (alert_script (alertRepo s))) = Some err \<Longrightarrow>
   checkAlerts um clock s entry
     = s\<lparr>alertRepo := (alertRepo s)\<lparr>alert_script := snd (next_outcome (alert_script (alertRepo s)))\<rparr>\<rparr>"
  by (auto simp: checkAlerts_def FindEnabled_def split: prod.splits option.splits)

lemma set_defaults_alertRepo:
  "set_defaults gen now (s\<lparr>alertRepo := ar\<rparr>) e
     = (fst (set_defaults gen now s e), (snd (set_defaults gen now s e))\<lparr>alertRepo := ar\<rparr>)"
  by (simp add: set_defaults_def uuid_New_def)

lemma batch_defaults_alertRepo:
  "batch_defaults gen now (s\<lparr>alertRepo := ar\<rparr>) es
     = (fst (batch_defaults gen now s es), (snd (batch_defaults gen now s es))\<lparr>alertRepo := ar\<rparr>)"
  by (induction es arbitrary: s) (simp_all add: set_defaults_alertRepo case_prod_beta)

lemma IngestSingle_alertRepo:
  "fst (fst (IngestSingle gen clock (s\<lparr>alertRepo := ar\<rparr>) entry))
     = fst (fst (IngestSingle gen clock s entry))"
  by (simp add: IngestSingle_def uuid_New_def time_Now_def Let_def case_prod_beta)

lemma batch_defaults_alertRepo_ticks:
  "batch_defaults gen now (s\<lparr>alertRepo := ar, ticks := t\<rparr>) es
     = (fst (batch_defaults gen now (s\<lparr>ticks := t\<rparr>) es),
        (snd (batch_defaults gen now (s\<lparr>ticks := t\<rparr>) es))\<lparr>alertRepo := ar\<rparr>)"
proof -
  have "s\<lparr>alertRepo := ar, ticks := t\<rparr> = (s\<lparr>ticks := t\<rparr>)\<lparr>alertRepo := ar\<rparr>"
    by (cases s) simp
  then show ?thesis
    by (simp only: batch_defaults_alertRepo)
qed

lemma IngestBatch_alertRepo:
  "fst (fst (IngestBatch gen clock (s\<lparr>alertRepo := ar\<rparr>) batch))
     = fst (fst (IngestBatch gen clock s batch))"
  by (simp add: IngestBatch_def time_Now_def Let_def case_prod_beta batch_defaults_alertRepo_ticks)

text \<open>
  A rule whose filter does not decode is passed over, and the rules after it are still
  evaluated: here the second rule fires after the first one failed to decode.
\<close>

theorem checkAlerts_parse_failure_counterexample:
  "sample_unmarshal_filter (Filter (alert_of 1 ''broken'' ''{'' None))
       = Inl ''unexpected end of JSON input''
   \<and> stdout (checkAlerts sample_unmarshal_filter (clock_from (at_day 1000))
        (service_of [] [] [alert_of 1 ''broken'' ''{'' None, alert_of 2 ''all'' ''{}'' None] 30)
        (entry_of 5 tenant_A 42))
     = [AlertTriggered ''all'' ''login failed'']"
  by (simp add: checkAlerts_def FindEnabled_def matchesAlert_def triggerAlert_def
      UpdateLastTriggered_def next_outcome_def sample_unmarshal_filter_def doc_auth_fatal_def
      service_of_def NewLogService_def AlertRepository_of_def alert_of_def entry_of_def
      LogEntry_zero_def LogFilter_zero_def)

text \<open>
  C2 (amended). When loading the enabled rules fails, \<open>checkAlerts\<close> stops there: one
  statement has been sent to the alert store and nothing else has happened (no rule matched
  or triggered, no second attempt). When the filter of a rule does not decode, that rule does
  not match, and the evaluation goes on as if the rule were not in the list. Neither failure
  reaches the ingestion caller: \<open>checkAlerts\<close> returns no error, and the error that
  \<open>IngestSingle\<close> and \<open>IngestBatch\<close> return does not depend on the alert store.
\<close>

theorem checkAlerts_failures:
  "(\<forall>err. fst (next_outcome (alert_script (alertRepo s))) = Some err \<longrightarrow>
       checkAlerts um clock s entry
         = s\<lparr>alertRepo := (alertRepo s)\<lparr>alert_script := snd (next_outcome (alert_script (alertRepo s)))\<rparr>\<rparr>
       \<and> stdout (checkAlerts um clock s entry) = stdout s
       \<and> alerts (alertRepo (checkAlerts um clock s entry)) = alerts (alertRepo s))
   \<and> (\<forall>err. um (Filter alert) = Inl err \<longrightarrow>
         \<not> matchesAlert um entry alert
         \<and> checkAlerts_loop um clock s entry (before @ alert # rest)
             = checkAlerts_loop um clock s entry (before @ rest))
   \<and> fst (fst (IngestSingle gen clock (s\<lparr>alertRepo := ar\<rparr>) entry))
       = fst (fst (IngestSingle gen clock s entry))
   \<and> fst (fst (IngestBatch gen clock (s\<lparr>alertRepo := ar\<rparr>) batch))
       = fst (fst (IngestBatch gen clock s batch))"
proof (intro conjI allI impI)
  fix err assume "fst (next_outcome (alert_script (alertRepo s))) = Some err"
  then have eq: "checkAlerts um clock s entry
         = s\<lparr>alertRepo := (alertRepo s)\<lparr>alert_script := snd (next_outcome (alert_script (alertRepo s)))\<rparr>\<rparr>"
    by (rule checkAlerts_load_error)
  show "checkAlerts um clock s entry
         = s\<lparr>alertRepo := (alertRepo s)\<lparr>alert_script := snd (next_outcome (alert_script (alertRepo s)))\<rparr>\<rparr>"
    by (rule eq)
  show "stdout (checkAlerts um clock s entry) = stdout s" by (simp add: eq)
  show "alerts (alertRepo (checkAlerts um clock s entry)) = alerts (alertRepo s)" by (simp add: eq)
next
  fix err assume p: "um (Filter alert) = Inl err"
  then show "\<not> matchesAlert um entry alert" by (rule matchesAlert_parse_error)
  then show "checkAlerts_loop um clock s entry (before @ alert # rest)
             = checkAlerts_loop um clock s entry (before @ rest)"
    by (simp add: checkAlerts_loop_append)
next
  show "fst (fst (IngestSingle gen clock (s\<lparr>alertRepo := ar\<rparr>) entry))
       = fst (fst (IngestSingle gen clock s entry))"
    by (rule IngestSingle_alertRepo)
next
  show "fst (fst (IngestBatch gen clock (s\<lparr>alertRepo := ar\<rparr>) batch))
       = fst (fst (IngestBatch gen clock s batch))"
    by (rule IngestBatch_alertRepo)
qed

theorem checkAlerts_failures_witness:
  "fst (next_outcome [Some ''connection refused'']) = Some ''connection refused''
   \<and> stdout (checkAlerts sample_unmarshal_filter (clock_from (at_day 1000))
        ((service_of [] [] [] 30)
           \<lparr>alertRepo := \<lparr>alerts = [alert_of 2 ''all'' ''{}'' None], NOW = at_day 1000,
                           alert_script = [Some ''connection refused'']\<rparr>\<rparr>)
        (entry_of 5 tenant_A 42)) = []
   \<and> sample_unmarshal_filter (Filter (alert_of 1 ''broken'' ''{'' None))
       = Inl ''unexpected end of JSON input''
   \<and> \<not> matchesAlert sample_unmarshal_filter (entry_of 5 tenant_A 42) (alert_of 1 ''broken'' ''{'' None)
   \<and> checkAlerts_loop sample_unmarshal_filter (clock_from (at_day 1000)) (service_of [] [] [] 30)
        (entry_of 5 tenant_A 42) ([] @ alert_of 1 ''broken'' ''{'' None # [alert_of 2 ''all'' ''{}'' None])
     = checkAlerts_loop sample_unmarshal_filter (clock_from (at_day 1000)) (service_of [] [] [] 30)
        (entry_of 5 tenant_A 42) ([] @ [alert_of 2 ''all'' ''{}'' None])"
proof -
  have bad: "sample_unmarshal_filter (Filter (alert_of 1 ''broken'' ''{'' None))
       = Inl ''unexpected end of JSON input''"
    by (simp add: sample_unmarshal_filter_def alert_of_def doc_auth_fatal_def)
  have down: "fst (next_outcome (alert_script (alertRepo
        ((service_of [] [] [] 30)
           \<lparr>alertRepo := \<lparr>alerts = [alert_of 2 ''all'' ''{}'' None], NOW = at_day 1000,
                           alert_script = [Some ''connection refused'']\<rparr>\<rparr>))))
      = Some ''connection refused''"
    by (simp add: next_outcome_def)
  show ?thesis
    using bad down
      checkAlerts_failures [where s =
        "(service_of [] [] [] 30)
           \<lparr>alertRepo := \<lparr>alerts = [alert_of 2 ''all'' ''{}'' None], NOW = at_day 1000,
                           alert_script = [Some ''connection refused'']\<rparr>\<rparr>"
        and um = sample_unmarshal_filter and clock = "clock_from (at_day 1000)"
        and entry = "entry_of 5 tenant_A 42" and alert = "alert_of 1 ''broken'' ''{'' None"
        and before = "[]" and rest = "[alert_of 2 ''all'' ''{}'' None]"]
      checkAlerts_failures [where s = "service_of [] [] [] 30"
        and um = sample_unmarshal_filter and clock = "clock_from (at_day 1000)"
        and entry = "entry_of 5 tenant_A 42" and alert = "alert_of 1 ''broken'' ''{'' None"
        and before = "[]" and rest = "[alert_of 2 ''all'' ''{}'' None]"]
    by (simp add: service_of_def NewLogService_def next_outcome_def)
qed

section \<open>Queries when the cache fails\<close>

lemma getCachedResult_logRepo:
  "logRepo (snd (getCachedResult ur s key)) = logRepo s"
  by (simp add: getCachedResult_def split: option.splits prod.splits sum.splits)

lemma getCachedResult_hit_no_error:
  "fst (fst (getCachedResult ur s key)) = Some cached \<Longrightarrow> snd (fst (getCachedResult ur s key)) = None"
  by (auto simp: getCachedResult_def split: option.splits prod.splits sum.splits)

lemma getCachedResult_miss:
  "redis s = None
   \<or> (\<exists>c err. redis s = Some c \<and> fst (Get c key) = Inl err)
   \<or> (\<exists>c data err. redis s = Some c \<and> fst (Get c key) = Inr data \<and> ur data = Inl err)
   \<Longrightarrow> fst (fst (getCachedResult ur s key)) = None"
  by (auto simp: getCachedResult_def split: option.splits prod.splits sum.splits)

lemma LogService_Query_hit:
  assumes "fst (fst (getCachedResult ur s (buildCacheKey mf flt))) = Some cached"
  shows "LogService_Query mf ur mr lower like s flt
     = (Inr cached, snd (getCachedResult ur s (buildCacheKey mf flt)))"
proof -
  obtain a b s1 where g: "getCachedResult ur s (buildCacheKey mf flt) = ((a, b), s1)"
    by (metis prod.exhaust)
  with assms have a: "a = Some cached" by simp
  from getCachedResult_hit_no_error [OF assms] g have b: "b = None" by simp
  show ?thesis
    by (simp add: LogService_Query_def Let_def g a b)
qed

lemma LogService_Query_miss:
  assumes "fst (fst (getCachedResult ur s (buildCacheKey mf flt))) = None"
  shows "LogService_Query mf ur mr lower like s flt
     = (case LogRepository_Query lower like (logRepo s) flt of
          (Inl err, r') \<Rightarrow> (Inl err, (snd (getCachedResult ur s (buildCacheKey mf flt)))\<lparr>logRepo := r'\<rparr>)
        | (Inr (entries, n), r') \<Rightarrow>
            (Inr \<lparr>LogQueryResult.Entries = entries, TotalCount = n,
                  LogQueryResult.Page = LogFilter.Page flt,
                  LogQueryResult.PageSize = LogFilter.PageSize flt, HasMore = False\<rparr>,
             cacheResult mr ((snd (getCachedResult ur s (buildCacheKey mf flt)))\<lparr>logRepo := r'\<rparr>)
               (buildCacheKey mf flt)
               \<lparr>LogQueryResult.Entries = entries, TotalCount = n,
                  LogQueryResult.Page = LogFilter.Page flt,
                  LogQueryResult.PageSize = LogFilter.PageSize flt, HasMore = False\<rparr>
               (30 * Second)))"
proof -
  obtain a b s1 where g: "getCachedResult ur s (buildCacheKey mf flt) = ((a, b), s1)"
    by (metis prod.exhaust)
  with assms have a: "a = None" by simp
  from getCachedResult_logRepo [of ur s "buildCacheKey mf flt"] g have r: "logRepo s1 = logRepo s"
    by simp
  show ?thesis
    by (simp add: LogService_Query_def Let_def g a r split: prod.splits sum.splits)
qed

lemma LogService_Query_error:
  "fst (LogService_Query mf ur mr lower like s flt) = Inl err \<Longrightarrow>
   fst (LogRepository_Query lower like (logRepo s) flt) = Inl err"
proof (cases "fst (fst (getCachedResult ur s (buildCacheKey mf flt)))")
  case None
  assume "fst (LogService_Query mf ur mr lower like s flt) = Inl err"
  then show ?thesis
    by (auto simp: LogService_Query_miss [OF None] split: prod.splits sum.splits)
next
  case (Some cached)
  assume "fst (LogService_Query mf ur mr lower like s flt) = Inl err"
  then show ?thesis by (simp add: LogService_Query_hit [OF Some])
qed


lemma getCachedResult_redis:
  "redis s = Some c \<Longrightarrow> redis (snd (getCachedResult ur s key)) = Some (snd (Get c key))"
  by (simp add: getCachedResult_def split: prod.splits sum.splits)

lemma cacheResult_issued:
  "redis s = Some c \<Longrightarrow> mr result = Inr data \<Longrightarrow>
   redis (cacheResult mr s key result ttl) = Some (snd (Set c key data ttl))"
  by (simp add: cacheResult_def split: prod.splits)

lemma Get_clock: "redis_clock (snd (Get c key)) = redis_clock c"
  by (simp add: Get_def split: prod.splits option.splits)

lemma Set_stored:
  "fst (next_outcome (redis_script c)) = None \<Longrightarrow> 0 < ttl \<Longrightarrow>
   kv (snd (Set c key data ttl)) key = Some (data, Some (redis_clock c + ttl))"
  by (auto simp: Set_def split: prod.splits option.splits)

lemma LogService_Query_written:
  assumes c: "redis s = Some c"
    and miss: "fst (fst (getCachedResult ur s (buildCacheKey mf flt))) = None"
    and ok: "fst (LogRepository_Query lower like (logRepo s) flt) = Inr (entries, n)"
    and m: "mr \<lparr>LogQueryResult.Entries = entries, TotalCount = n,
                 LogQueryResult.Page = LogFilter.Page flt,
                 LogQueryResult.PageSize = LogFilter.PageSize flt, HasMore = False\<rparr> = Inr data"
  shows "redis (snd (LogService_Query mf ur mr lower like s flt))
           = Some (snd (Set (snd (Get c (buildCacheKey mf flt))) (buildCacheKey mf flt) data (30 * Second)))"
proof -
  obtain r' where q: "LogRepository_Query lower like (logRepo s) flt = (Inr (entries, n), r')"
    using ok by (metis fst_conv prod.exhaust)
  have "redis ((snd (getCachedResult ur s (buildCacheKey mf flt)))\<lparr>logRepo := r'\<rparr>)
          = Some (snd (Get c (buildCacheKey mf flt)))"
    using getCachedResult_redis [OF c] by simp
  from cacheResult_issued [where mr = mr and data = data, OF this m] show ?thesis
    by (simp add: LogService_Query_miss [OF miss] q)
qed

text \<open>
  C5. \<open>Query\<close> returns an error only when the query of the entry store fails, and then that
  error. When the cache gives no result (no client, a failed or empty \<open>Get\<close>, a value that
  does not decode), the call goes to the store and the answer is the store's: its error, or
  the result built from its rows and count. On a store success with a client and an encoded
  result, one \<open>Set\<close> is issued under the cache key with a time to live of thirty seconds, and
  when it succeeds the key holds the encoded result until thirty seconds after the cache's
  clock. What is returned does not depend on the encoding or on the write: it is the same for
  every encoder.
\<close>

theorem LogService_Query_degrades:
  "(\<forall>err. fst (LogService_Query mf ur mr lower like s flt) = Inl err \<longrightarrow>
          fst (LogRepository_Query lower like (logRepo s) flt) = Inl err)
   \<and> (redis s = None
       \<or> (\<exists>c err. redis s = Some c \<and> fst (Get c (buildCacheKey mf flt)) = Inl err)
       \<or> (\<exists>c data err. redis s = Some c \<and> fst (Get c (buildCacheKey mf flt)) = Inr data
                         \<and> ur data = Inl err) \<longrightarrow>
       (case fst (LogRepository_Query lower like (logRepo s) flt) of
          Inl err \<Rightarrow> fst (LogService_Query mf ur mr lower like s flt) = Inl err
        | Inr (entries, n) \<Rightarrow>
            fst (LogService_Query mf ur mr lower like s flt)
              = Inr \<lparr>LogQueryResult.Entries = entries, TotalCount = n,
                     LogQueryResult.Page = LogFilter.Page flt,
                     LogQueryResult.PageSize = LogFilter.PageSize flt, HasMore = False\<rparr>))
   \<and> (\<forall>c entries n data.
         redis s = Some c
         \<and> fst (fst (getCachedResult ur s (buildCacheKey mf flt))) = None
         \<and> fst (LogRepository_Query lower like (logRepo s) flt) = Inr (entries, n)
         \<and> mr \<lparr>LogQueryResult.Entries = entries, TotalCount = n,
                 LogQueryResult.Page = LogFilter.Page flt,
                 LogQueryResult.PageSize = LogFilter.PageSize flt, HasMore = False\<rparr> = Inr data \<longrightarrow>
         redis (snd (LogService_Query mf ur mr lower like s flt))
           = Some (snd (Set (snd (Get c (buildCacheKey mf flt))) (buildCacheKey mf flt) data (30 * Second)))
         \<and> (fst (next_outcome (redis_script (snd (Get c (buildCacheKey mf flt))))) = None \<longrightarrow>
              (\<exists>c'. redis (snd (LogService_Query mf ur mr lower like s flt)) = Some c'
                    \<and> kv c' (buildCacheKey mf flt) = Some (data, Some (redis_clock c + 30 * Second)))))
   \<and> (\<forall>mr'. fst (LogService_Query mf ur mr' lower like s flt)
                = fst (LogService_Query mf ur mr lower like s flt))"
proof (intro conjI allI impI)
  fix err assume "fst (LogService_Query mf ur mr lower like s flt) = Inl err"
  then show "fst (LogRepository_Query lower like (logRepo s) flt) = Inl err"
    by (rule LogService_Query_error)
next
  assume "redis s = None
       \<or> (\<exists>c err. redis s = Some c \<and> fst (Get c (buildCacheKey mf flt)) = Inl err)
       \<or> (\<exists>c data err. redis s = Some c \<and> fst (Get c (buildCacheKey mf flt)) = Inr data
                         \<and> ur data = Inl err)"
  then have miss: "fst (fst (getCachedResult ur s (buildCacheKey mf flt))) = None"
    by (rule getCachedResult_miss)
  show "case fst (LogRepository_Query lower like (logRepo s) flt) of
          Inl err \<Rightarrow> fst (LogService_Query mf ur mr lower like s flt) = Inl err
        | Inr (entries, n) \<Rightarrow>
            fst (LogService_Query mf ur mr lower like s flt)
              = Inr \<lparr>LogQueryResult.Entries = entries, TotalCount = n,
                     LogQueryResult.Page = LogFilter.Page flt,
                     LogQueryResult.PageSize = LogFilter.PageSize flt, HasMore = False\<rparr>"
    by (simp add: LogService_Query_miss [OF miss] split: prod.splits sum.splits)
next
  fix c entries n data
  assume h: "redis s = Some c
         \<and> fst (fst (getCachedResult ur s (buildCacheKey mf flt))) = None
         \<and> fst (LogRepository_Query lower like (logRepo s) flt) = Inr (entries, n)
         \<and> mr \<lparr>LogQueryResult.Entries = entries, TotalCount = n,
                 LogQueryResult.Page = LogFilter.Page flt,
                 LogQueryResult.PageSize = LogFilter.PageSize flt, HasMore = False\<rparr> = Inr data"
  then show w: "redis (snd (LogService_Query mf ur mr lower like s flt))
           = Some (snd (Set (snd (Get c (buildCacheKey mf flt))) (buildCacheKey mf flt) data (30 * Second)))"
    using LogService_Query_written [of s c ur mf flt lower like entries n mr data] by blast
  assume "fst (next_outcome (redis_script (snd (Get c (buildCacheKey mf flt))))) = None"
  then have "kv (snd (Set (snd (Get c (buildCacheKey mf flt))) (buildCacheKey mf flt) data (30 * Second)))
               (buildCacheKey mf flt)
             = Some (data, Some (redis_clock (snd (Get c (buildCacheKey mf flt))) + 30 * Second))"
    by (rule Set_stored) (simp add: Second_def)
  with w show "\<exists>c'. redis (snd (LogService_Query mf ur mr lower like s flt)) = Some c'
                    \<and> kv c' (buildCacheKey mf flt) = Some (data, Some (redis_clock c + 30 * Second))"
    by (simp add: Get_clock)
next
  fix mr'
  show "fst (LogService_Query mf ur mr' lower like s flt)
                = fst (LogService_Query mf ur mr lower like s flt)"
  proof (cases "fst (fst (getCachedResult ur s (buildCacheKey mf flt)))")
    case None
    then show ?thesis
      by (simp add: LogService_Query_miss split: prod.splits sum.splits)
  next
    case (Some cached)
    then show ?thesis by (simp add: LogService_Query_hit)
  qed
qed


theorem LogService_Query_degrades_witness:
  "redis ((service_of [entry_of 5 tenant_A 42] [] [] 30)\<lparr>redis := Some redis_refusing_once\<rparr>)
     = Some redis_refusing_once
   \<and> fst (Get redis_refusing_once (buildCacheKey (\<lambda>f. Inr ''{}'') LogFilter_zero))
       = Inl ''connection refused''
   \<and> fst (LogService_Query (\<lambda>f. Inr ''{}'') (\<lambda>d. Inl ''invalid character'') (\<lambda>r. Inr ''cached'')
            (\<lambda>x. x) (\<lambda>m p. True)
            ((service_of [entry_of 5 tenant_A 42] [] [] 30)\<lparr>redis := Some redis_refusing_once\<rparr>)
            LogFilter_zero)
       = Inr \<lparr>LogQueryResult.Entries = [entry_of 5 tenant_A 42], TotalCount = 1,
              LogQueryResult.Page = 0, LogQueryResult.PageSize = 0, HasMore = False\<rparr>
   \<and> map_option (\<lambda>c'. kv c' ''log_query:7b7d'')
        (redis (snd (LogService_Query (\<lambda>f. Inr ''{}'') (\<lambda>d. Inl ''invalid character'')
            (\<lambda>r. Inr ''cached'') (\<lambda>x. x) (\<lambda>m p. True)
            ((service_of [entry_of 5 tenant_A 42] [] [] 30)\<lparr>redis := Some redis_refusing_once\<rparr>)
            LogFilter_zero)))
       = Some (Some (''cached'', Some (5000 + 30 * Second)))
   \<and> fst (LogService_Query (\<lambda>f. Inr ''{}'') (\<lambda>d. Inl ''invalid character'') (\<lambda>r. Inr ''cached'')
            (\<lambda>x. x) (\<lambda>m p. True)
            ((service_of [] [] [] 30)\<lparr>logRepo := LogRepository_failing_once [entry_of 5 tenant_A 42]\<rparr>)
            LogFilter_zero)
       = Inl ''connection reset''"
  using LogService_Query_degrades [of "\<lambda>f. Inr ''{}''" "\<lambda>d. Inl ''invalid character''"
      "\<lambda>r. Inr ''cached''" "\<lambda>x. x" "\<lambda>m p. True"
      "(service_of [entry_of 5 tenant_A 42] [] [] 30)\<lparr>redis := Some redis_refusing_once\<rparr>"
      LogFilter_zero]
    LogService_Query_degrades [of "\<lambda>f. Inr ''{}''" "\<lambda>d. Inl ''invalid character''"
      "\<lambda>r. Inr ''cached''" "\<lambda>x. x" "\<lambda>m p. True"
      "(service_of [] [] [] 30)\<lparr>logRepo := LogRepository_failing_once [entry_of 5 tenant_A 42]\<rparr>"
      LogFilter_zero]
  by (simp add: LogService_Query_def getCachedResult_def cacheResult_def Get_def Set_def
      buildCacheKey_def hex_def hex_digit_def LogRepository_Query_def buildQuery_def selects_def
      send_def next_outcome_def Let_def LogFilter_zero_def LogRepository_of_def word_sless_alt
      service_of_def NewLogService_def redis_refusing_once_def LogRepository_failing_once_def
      Second_def)

section \<open>Cleanup: the default pass and the tenants that have a policy\<close>

text \<open>
  What one \<open>DeleteOlderThan\<close> removes when its statement succeeds: the rows strictly older
  than the cutoff, of the given tenant, or of every tenant when none is given.
\<close>

lemma DeleteOlderThan_table:
  "fst (next_outcome (script r)) = None \<Longrightarrow>
   table (snd (DeleteOlderThan r tenantID before))
     = filter (\<lambda>e. \<not> (Timestamp e < before
                          \<and> (case tenantID of None \<Rightarrow> True | Some t \<Rightarrow> LogEntry.TenantID e = t)))
         (table r)"
  by (cases tenantID)
     (auto simp: DeleteOlderThan_def send_def selects_def Let_def split: prod.splits option.splits
           intro: filter_cong)

text \<open>
  C1. The source announces the last pass as the default retention for the logs without a
  policy of their own; the call it makes names no tenant. Here tenant A keeps its logs for
  90 days and the default is 30 days. An entry of tenant A that is 40 days old survives the
  pass for tenant A (cutoff: day 910) and is then deleted by the default pass (cutoff: day
  970), together with the entry of tenant B, which has no policy.
\<close>

theorem Cleanup_default_pass_deletes_policy_tenant:
  "fst (Cleanup (clock_from (at_day 1000))
          (service_of [entry_of 5 tenant_A (at_day 960), entry_of 6 tenant_B (at_day 960)]
             [policy_of tenant_A 90] [] 30)) = None
   \<and> table (logRepo (snd (Cleanup (clock_from (at_day 1000))
          (service_of [entry_of 5 tenant_A (at_day 960), entry_of 6 tenant_B (at_day 960)]
             [policy_of tenant_A 90] [] 30)))) = []
   \<and> journal (logRepo (snd (Cleanup (clock_from (at_day 1000))
          (service_of [entry_of 5 tenant_A (at_day 960), entry_of 6 tenant_B (at_day 960)]
             [policy_of tenant_A 90] [] 30))))
       = [CallDelete [TimestampLt (at_day 910), TenantIdEq tenant_A],
          CallDelete [TimestampLt (at_day 970 + 1)]]"
  by (simp add: Cleanup_def FindAll_def DeleteOlderThan_def send_def next_outcome_def selects_def
      time_Now_def AddDate_days_def Let_def service_of_def NewLogService_def LogRepository_of_def
      RetentionRepository_of_def Config_days_def policy_of_def entry_of_def clock_from_def
      at_day_def Day_def Minute_def Second_def tenant_A_def tenant_B_def)

text \<open>
  C7. Tenant A keeps its logs for 365 days, the default is 30 days, and the cutoff of
  tenant A is day 635. None of its three entries (at the cutoff, 100 days old, 10 days old)
  is strictly older than the cutoff, yet the cleanup leaves only the youngest: the other two
  fall to the default pass.
\<close>

theorem Cleanup_deletes_inside_policy_window:
  "map Timestamp (table (logRepo (snd (Cleanup (clock_from (at_day 1000))
          (service_of [entry_of 5 tenant_A (at_day 635), entry_of 6 tenant_A (at_day 900),
                       entry_of 7 tenant_A (at_day 990)]
             [policy_of tenant_A 365] [] 30)))))
     = [at_day 990]
   \<and> AddDate_days (clock_from (at_day 1000) 0) (- LogRetention.RetentionDays (policy_of tenant_A 365))
       = at_day 635"
  by (simp add: Cleanup_def FindAll_def DeleteOlderThan_def send_def next_outcome_def selects_def
      time_Now_def AddDate_days_def Let_def service_of_def NewLogService_def LogRepository_of_def
      RetentionRepository_of_def Config_days_def policy_of_def entry_of_def clock_from_def
      at_day_def Day_def Minute_def Second_def tenant_A_def tenant_B_def)

end
